theory Spec2Isabelle
  imports Complex_Main
begin

section \<open>JavaScript values used by the tariff engine\<close>

subsection \<open>Strings\<close>

text \<open>
  Strings are lists of code units in the range U+0000..U+00FF. On that range
  \<^verbatim>\<open>String.prototype.toLowerCase\<close> maps A..Z and the Latin-1 capitals U+00C0..U+00DE
  (without the multiplication sign U+00D7) to the code unit 32 above, and leaves every
  other code unit alone.
\<close>

definition toLowerChar :: "char \<Rightarrow> char" where
  "toLowerChar c =
     (let n = (of_char c :: nat)
      in if (65 \<le> n \<and> n \<le> 90) \<or> (192 \<le> n \<and> n \<le> 222 \<and> n \<noteq> 215)
         then char_of (n + 32) else c)"

definition toLowerCase :: "string \<Rightarrow> string" where
  "toLowerCase s = map toLowerChar s"

text \<open>
  \<^verbatim>\<open>String.prototype.trim\<close> strips white space and line terminators from both ends; in
  the modelled range these are TAB, LF, VT, FF, CR, SPACE and the no-break space U+00A0.
\<close>

definition isWhiteSpace :: "char \<Rightarrow> bool" where
  "isWhiteSpace c = ((of_char c :: nat) \<in> {9, 10, 11, 12, 13, 32, 160})"

definition trim :: "string \<Rightarrow> string" where
  "trim s = rev (dropWhile isWhiteSpace (rev (dropWhile isWhiteSpace s)))"

text \<open>\<^verbatim>\<open>a.startsWith(b)\<close> and \<^verbatim>\<open>a.includes(b)\<close>: \<open>b\<close> occurs as a contiguous run in \<open>a\<close>.\<close>

fun startsWith :: "string \<Rightarrow> string \<Rightarrow> bool" where
  "startsWith s [] = True"
| "startsWith [] (c # cs) = False"
| "startsWith (d # ds) (c # cs) = (d = c \<and> startsWith ds cs)"

fun includes_str :: "string \<Rightarrow> string \<Rightarrow> bool" where
  "includes_str [] sub = (sub = [])"
| "includes_str (d # ds) sub = (startsWith (d # ds) sub \<or> includes_str ds sub)"

subsection \<open>Numbers\<close>

text \<open>
  A JavaScript number is a finite value, one of the two infinities, or NaN. Finite values
  are modelled as reals: rounding and overflow of IEEE doubles are outside the model, and
  a zero divisor is taken as positive zero (no price or rate of the program is a negative
  zero).
\<close>

datatype jsnum = Num real | PosInf | NegInf | NaN

fun js_neg :: "jsnum \<Rightarrow> jsnum" where
  "js_neg (Num a) = Num (- a)"
| "js_neg PosInf = NegInf"
| "js_neg NegInf = PosInf"
| "js_neg NaN = NaN"

fun js_add :: "jsnum \<Rightarrow> jsnum \<Rightarrow> jsnum" where
  "js_add (Num a) (Num b) = Num (a + b)"
| "js_add NaN _ = NaN"
| "js_add _ NaN = NaN"
| "js_add PosInf NegInf = NaN"
| "js_add NegInf PosInf = NaN"
| "js_add PosInf _ = PosInf"
| "js_add NegInf _ = NegInf"
| "js_add _ PosInf = PosInf"
| "js_add _ NegInf = NegInf"

definition js_sub :: "jsnum \<Rightarrow> jsnum \<Rightarrow> jsnum" where
  "js_sub a b = js_add a (js_neg b)"

text \<open>The sign of an infinite product or quotient with a finite factor \<open>b\<close>.\<close>

definition signed_inf :: "bool \<Rightarrow> real \<Rightarrow> jsnum" where
  "signed_inf positive b =
     (if b = 0 then NaN else if (0 < b) = positive then PosInf else NegInf)"

fun js_mul :: "jsnum \<Rightarrow> jsnum \<Rightarrow> jsnum" where
  "js_mul (Num a) (Num b) = Num (a * b)"
| "js_mul NaN _ = NaN"
| "js_mul _ NaN = NaN"
| "js_mul PosInf (Num b) = signed_inf True b"
| "js_mul NegInf (Num b) = signed_inf False b"
| "js_mul (Num a) PosInf = signed_inf True a"
| "js_mul (Num a) NegInf = signed_inf False a"
| "js_mul PosInf PosInf = PosInf"
| "js_mul NegInf NegInf = PosInf"
| "js_mul PosInf NegInf = NegInf"
| "js_mul NegInf PosInf = NegInf"

fun js_div :: "jsnum \<Rightarrow> jsnum \<Rightarrow> jsnum" where
  "js_div (Num a) (Num b) = (if b = 0 then signed_inf True a else Num (a / b))"
| "js_div NaN _ = NaN"
| "js_div _ NaN = NaN"
| "js_div (Num a) PosInf = Num 0"
| "js_div (Num a) NegInf = Num 0"
| "js_div PosInf (Num b) = (if 0 \<le> b then PosInf else NegInf)"
| "js_div NegInf (Num b) = (if 0 \<le> b then NegInf else PosInf)"
| "js_div PosInf _ = NaN"
| "js_div NegInf _ = NaN"

fun js_lt :: "jsnum \<Rightarrow> jsnum \<Rightarrow> bool" where
  "js_lt (Num a) (Num b) = (a < b)"
| "js_lt NaN _ = False"
| "js_lt _ NaN = False"
| "js_lt _ NegInf = False"
| "js_lt PosInf _ = False"
| "js_lt NegInf _ = True"
| "js_lt _ PosInf = True"

definition js_gt :: "jsnum \<Rightarrow> jsnum \<Rightarrow> bool" where
  "js_gt a b = js_lt b a"

text \<open>Strict equality \<^verbatim>\<open>===\<close> on numbers: NaN equals nothing, itself included.\<close>

definition js_eq :: "jsnum \<Rightarrow> jsnum \<Rightarrow> bool" where
  "js_eq a b = (a \<noteq> NaN \<and> a = b)"

text \<open>A finite number that is not negative: what the program expects of a price or a rate.\<close>

fun nonnegFinite :: "jsnum \<Rightarrow> bool" where
  "nonnegFinite (Num x) = (0 \<le> x)"
| "nonnegFinite PosInf = False"
| "nonnegFinite NegInf = False"
| "nonnegFinite NaN = False"

subsection \<open>Messages\<close>

text \<open>
  A message is the template literal the source builds: literal text, interpolated strings
  (already text) and interpolated numbers, which the source formats with
  \<^verbatim>\<open>toFixed(digits)\<close>. The formatting of a number is kept symbolic.
\<close>

datatype msgpart = Txt string | ToFixed jsnum nat

type_synonym message = "msgpart list"

section \<open>The content script: \<^verbatim>\<open>scripts/content.js\<close>\<close>

text \<open>
  \<^verbatim>\<open>extractProductData\<close> hands over a record whose price is a number that is not NaN,
  whose country is a non-empty string (\<^verbatim>\<open>countryOfOrigin || 'Unknown'\<close>) and whose
  category is a string; \<^verbatim>\<open>category?.toLowerCase() || ''\<close> also accepts a missing
  category, here \<open>None\<close>.
\<close>

record productData =
  productTitle :: string
  price :: jsnum
  countryOfOrigin :: string
  category :: "string option"

record tariffResult =
  isSubjectToTariff :: bool
  tariffRate :: jsnum
  preTariffPrice :: jsnum
  tariffAmount :: jsnum
  message :: message
  isFallback :: bool

text \<open>
  The decomposition of a tariff-inclusive price under a rate, which every script writes as
  \<^verbatim>\<open>preTariffPrice = price / (1 + tariffRate); tariffAmount = price - preTariffPrice\<close>
  (\<^verbatim>\<open>content.js\<close> 378-379, \<^verbatim>\<open>content-injection.js\<close> 327-328, 367-368 and 469-470, the
  API connector 783-784). The pair is (pre-tariff price, tariff amount).
\<close>

definition percentageSplit :: "jsnum \<Rightarrow> jsnum \<Rightarrow> jsnum \<times> jsnum" where
  "percentageSplit p rate =
     (let pre = js_div p (js_add (Num 1) rate) in (pre, js_sub p pre))"

definition lowerCategory :: "string option \<Rightarrow> string" where
  "lowerCategory c = (case c of None \<Rightarrow> [] | Some t \<Rightarrow> toLowerCase t)"

definition isPostalShipment :: "jsnum \<Rightarrow> string \<Rightarrow> bool" where
  "isPostalShipment p cat =
     (js_lt p (Num 100) \<and> \<not> includes_str cat ''electronics'' \<and> \<not> includes_str cat ''appliance'')"

text \<open>
  The branches of \<^verbatim>\<open>fallbackCalculation\<close> assign \<^verbatim>\<open>tariffRate\<close>,
  \<^verbatim>\<open>isSubjectToTariff\<close> and \<^verbatim>\<open>message\<close>; a rule returns the three in this order.
  The branches from Mexico to India are the same text in \<^verbatim>\<open>content.js\<close> (lines 273-352)
  and in \<^verbatim>\<open>content-injection.js\<close> (lines 373-452): \<open>namedCountryRule\<close> is that part of
  the chain, \<open>None\<close> when none of its conditions holds. The first matching branch wins.
\<close>

type_synonym rule = "jsnum \<times> bool \<times> message"

definition namedCountryRule :: "string \<Rightarrow> string \<Rightarrow> rule option" where
  "namedCountryRule country cat =
     (if includes_str country ''mexico'' then
        (if includes_str cat ''food'' \<or> includes_str cat ''produce'' \<or>
            includes_str cat ''vegetable'' \<or> includes_str cat ''fruit'' then
           Some (Num 0, False,
            [Txt ''This product appears to qualify for USMCA exemption (0% tariff)''])
         else
           Some (Num 0.25, True,
            [Txt ''This product from Mexico is subject to a 25% tariff on non-USMCA compliant goods'']))
      else if includes_str country ''canada'' then
        (if includes_str cat ''food'' \<or> includes_str cat ''produce'' \<or>
            includes_str cat ''vegetable'' \<or> includes_str cat ''fruit'' then
           Some (Num 0, False,
            [Txt ''This product appears to qualify for USMCA exemption (0% tariff)''])
         else if includes_str cat ''energy'' \<or> includes_str cat ''oil'' \<or>
                 includes_str cat ''gas'' \<or> includes_str cat ''potash'' then
           Some (Num 0.10, True,
            [Txt ''This product from Canada is subject to a 10% tariff (energy/potash non-USMCA rate)''])
         else
           Some (Num 0.25, True,
            [Txt ''This product from Canada is subject to a 25% tariff on non-USMCA compliant goods'']))
      else if includes_str country ''japan'' then
        Some (Num 0.10, True,
         [Txt ''This product from Japan is subject to a 10% tariff rate under the May 2025 trade policy''])
      else if includes_str country ''germany'' \<or> includes_str country ''european union'' \<or>
              includes_str country ''eu'' \<or> includes_str country ''france'' \<or>
              includes_str country ''italy'' \<or> includes_str country ''spain'' then
        Some (Num 0.20, True,
         [Txt ''This product from the European Union is subject to a 20% tariff rate under the May 2025 trade policy''])
      else if includes_str country ''vietnam'' then
        Some (Num 0.46, True,
         [Txt ''This product from Vietnam is subject to a 46% tariff rate under the May 2025 trade policy''])
      else if includes_str country ''south korea'' \<or> includes_str country ''korea'' then
        Some (Num 0.25, True,
         [Txt ''This product from South Korea is subject to a 25% tariff rate under the May 2025 trade policy''])
      else if includes_str country ''taiwan'' then
        Some (Num 0.32, True,
         [Txt ''This product from Taiwan is subject to a 32% tariff rate under the May 2025 trade policy''])
      else if includes_str country ''united kingdom'' \<or> includes_str country ''uk'' then
        Some (Num 0.10, True,
         [Txt ''This product from the UK is subject to a 10% tariff rate under the May 2025 trade policy''])
      else if includes_str country ''india'' then
        Some (Num 0.40, True,
         [Txt ''This product from India is subject to a 40% tariff rate under the May 2025 trade policy''])
      else None)"

text \<open>The last branch of both scripts, for a country no earlier branch names.\<close>

definition baselineRule :: "string \<Rightarrow> rule" where
  "baselineRule country =
     (Num 0.10, True,
      [Txt (''Products from '' @ country @
            '' are subject to the universal 10% baseline tariff implemented in May 2025'')])"

text \<open>
  \<^verbatim>\<open>content.js\<close>, lines 250-375. On the postal channel the flat fee is turned into the
  rate \<^verbatim>\<open>flatFeeTariff / price\<close>, and the common decomposition of lines 377-379 is then
  applied to it as to any percentage.
\<close>

definition rateRule :: "string \<Rightarrow> jsnum \<Rightarrow> string \<Rightarrow> rule" where
  "rateRule country p cat =
     (if includes_str country ''china'' \<or> includes_str country ''hong kong'' then
        (if isPostalShipment p cat then
           (let flatFeeTariff = Num 100;
                percentTariff = js_mul p (Num 1.20)
            in if js_gt percentTariff flatFeeTariff then
                 (Num 1.20, True,
                  [Txt ''This product from China is subject to a 120% tariff rate as a postal shipment under the May 2025 trade policy''])
               else
                 (let rate = js_div flatFeeTariff p
                  in (rate, True,
                      [Txt ''This product from China is subject to a $100 flat fee as a postal shipment under the May 2025 trade policy (equivalent to a '',
                       ToFixed (js_mul rate (Num 100)) 1,
                       Txt ''% rate)''])))
         else
           (Num 1.25, True,
            [Txt ''This product from China is subject to a total 125% tariff rate under the May 2025 trade policy (de minimis exemption removed)'']))
      else
        (case namedCountryRule country cat of
           Some r \<Rightarrow> r
         | None \<Rightarrow>
             if country = ''unknown'' then
               (if js_lt p (Num 50) \<and>
                   (includes_str cat ''electronics'' \<or> includes_str cat ''home'' \<or>
                    includes_str cat ''light'' \<or> includes_str cat ''tool'') then
                  (Num 1.25, True,
                   [Txt ''Based on the product type and price, this is likely from China and subject to a 125% tariff rate''])
                else
                  (Num 0.10, True,
                   [Txt ''Country of origin unknown, applying the minimum baseline 10% tariff'']))
             else baselineRule country))"

definition fallbackCalculation :: "productData \<Rightarrow> tariffResult" where
  "fallbackCalculation pd =
     (let country = toLowerCase (countryOfOrigin pd);
          p = price pd;
          cat = lowerCategory (category pd);
          (rate, subject, msg) = rateRule country p cat;
          (pre, amount) = percentageSplit p rate
      in \<lparr> isSubjectToTariff = subject, tariffRate = rate, preTariffPrice = pre,
           tariffAmount = amount, message = msg, isFallback = True \<rparr>)"

section \<open>The popup-injected script: \<^verbatim>\<open>scripts/content-injection.js\<close>\<close>

record injectedResult = tariffResult +
  isUsingFlatFee :: bool
  flatFeeAmount :: jsnum
  specialPriceLogic :: bool

text \<open>
  The variables of \<^verbatim>\<open>fallbackCalculation\<close> as declared in lines 305-313; the function
  returns them (with \<^verbatim>\<open>isFallback: true\<close>), so the record of the result doubles as
  the record of the variables.
\<close>

definition initialVars :: injectedResult where
  "initialVars =
     \<lparr> isSubjectToTariff = False, tariffRate = Num 0, preTariffPrice = Num 0,
       tariffAmount = Num 0, message = [], isFallback = True,
       isUsingFlatFee = False, flatFeeAmount = Num 0, specialPriceLogic = False \<rparr>"

definition setRule :: "rule \<Rightarrow> injectedResult \<Rightarrow> injectedResult" where
  "setRule r v =
     (case r of (rate, subject, msg) \<Rightarrow>
        v\<lparr> tariffRate := rate, isSubjectToTariff := subject, message := msg \<rparr>)"

text \<open>Lines 319-372: the branch for China and Hong Kong.\<close>

definition chinaBranch :: "jsnum \<Rightarrow> string \<Rightarrow> injectedResult \<Rightarrow> injectedResult" where
  "chinaBranch p cat v =
     (if isPostalShipment p cat then
        (let percentTariffRate = Num 1.20;
             flatFeeTariff = Num 100;
             (normalPreTariffPrice, percentTariffAmount) = percentageSplit p percentTariffRate
         in if js_gt percentTariffAmount flatFeeTariff then
              v\<lparr> tariffRate := percentTariffRate,
                 preTariffPrice := normalPreTariffPrice,
                 tariffAmount := percentTariffAmount,
                 message := [Txt ''This product from China is subject to a 120% tariff rate as a postal shipment under the May 2025 trade policy'']
               \<rparr>
            else if js_gt flatFeeTariff p then
              (let amount = js_mul p (Num 0.7)
               in v\<lparr> isUsingFlatFee := True,
                     specialPriceLogic := True,
                     tariffAmount := amount,
                     preTariffPrice := js_sub p amount,
                     flatFeeAmount := amount,
                     message :=
                       [Txt ''This product from China would normally be subject to a $100 flat fee tariff, but since the product price is only $'',
                        ToFixed p 2,
                        Txt '', the tariff shown is an approximation. The actual $100 flat fee would be applied at customs for direct imports.'']
                   \<rparr>)
            else
              v\<lparr> isUsingFlatFee := True,
                 flatFeeAmount := flatFeeTariff,
                 preTariffPrice := js_sub p flatFeeTariff,
                 tariffAmount := flatFeeTariff,
                 message := [Txt ''This product from China is subject to a $100 flat fee as a postal shipment under the May 2025 trade policy'']
               \<rparr>)
      else
        (let (pre, amount) = percentageSplit p (Num 1.25)
         in v\<lparr> tariffRate := Num 1.25,
               preTariffPrice := pre,
               tariffAmount := amount,
               message := [Txt ''This product from China is subject to a total 125% tariff rate under the May 2025 trade policy (de minimis exemption removed)'']
             \<rparr>))
     \<lparr> isSubjectToTariff := True \<rparr>"

text \<open>Lines 466-471: the percentage decomposition, unless an earlier branch already split the price.\<close>

definition finishPercentage :: "jsnum \<Rightarrow> injectedResult \<Rightarrow> injectedResult" where
  "finishPercentage p v =
     (if \<not> isUsingFlatFee v \<and> js_eq (tariffAmount v) (Num 0) then
        (let (pre, amount) = percentageSplit p (tariffRate v)
         in v\<lparr> preTariffPrice := pre, tariffAmount := amount \<rparr>)
      else v)"

definition fallbackCalculation_injected :: "productData \<Rightarrow> injectedResult" where
  "fallbackCalculation_injected pd =
     (let country = toLowerCase (countryOfOrigin pd);
          p = price pd;
          cat = lowerCategory (category pd);
          v = (if includes_str country ''china'' \<or> includes_str country ''hong kong'' then
                 chinaBranch p cat initialVars
               else
                 (case namedCountryRule country cat of
                    Some r \<Rightarrow> setRule r initialVars
                  | None \<Rightarrow>
                      if country = ''unknown'' then
                        setRule (Num 0.10, True,
                                 [Txt ''Country of origin unknown, applying the minimum baseline 10% tariff''])
                                initialVars
                      else setRule (baselineRule country) initialVars))
      in finishPercentage p v)"

section \<open>The tariff API connector\<close>

subsection \<open>Values and property lookup\<close>

text \<open>
  The values that reach \<^verbatim>\<open>normalizeCountryName\<close> or leave it: \<^verbatim>\<open>undefined\<close>, a string, a
  built-in function (known by its name) and the object \<^verbatim>\<open>Object.prototype\<close>. The last two
  are what a property read on an object literal yields for a name the literal does not
  define itself but inherits.
\<close>

datatype jsval = JUndefined | JStr string | JFunction string | JObjectPrototype

datatype error = TypeError

fun truthy :: "jsval \<Rightarrow> bool" where
  "truthy JUndefined = False"
| "truthy (JStr s) = (s \<noteq> [])"
| "truthy (JFunction f) = True"
| "truthy JObjectPrototype = True"

text \<open>String conversion, as a template literal applies it.\<close>

fun toStr :: "jsval \<Rightarrow> string" where
  "toStr JUndefined = ''undefined''"
| "toStr (JStr s) = s"
| "toStr (JFunction f) = ''function '' @ f @ ''() { [native code] }''"
| "toStr JObjectPrototype = ''[object Object]''"

text \<open>
  The properties every object literal inherits from \<^verbatim>\<open>Object.prototype\<close>: its methods,
  \<^verbatim>\<open>constructor\<close> (the function \<^verbatim>\<open>Object\<close>) and the accessor \<^verbatim>\<open>__proto__\<close>, which reads
  the prototype of the literal.
\<close>

definition objectPrototypeMethods :: "string list" where
  "objectPrototypeMethods =
     [''__defineGetter__'', ''__defineSetter__'', ''hasOwnProperty'', ''__lookupGetter__'',
      ''__lookupSetter__'', ''isPrototypeOf'', ''propertyIsEnumerable'', ''toString'',
      ''valueOf'', ''toLocaleString'']"

definition inheritedProperty :: "string \<Rightarrow> jsval" where
  "inheritedProperty k =
     (if k = ''constructor'' then JFunction ''Object''
      else if k = ''__proto__'' then JObjectPrototype
      else if k \<in> set objectPrototypeMethods then JFunction k
      else JUndefined)"

text \<open>\<^verbatim>\<open>obj[k]\<close> on an object literal with the own string properties \<open>own\<close>.\<close>

definition getProperty :: "(string \<times> string) list \<Rightarrow> string \<Rightarrow> jsval" where
  "getProperty own k = (case map_of own k of Some v \<Rightarrow> JStr v | None \<Rightarrow> inheritedProperty k)"

subsection \<open>Country names\<close>

definition countryMap :: "(string \<times> string) list" where
  "countryMap =
     [(''cn'', ''china''),
      (''prc'', ''china''),
      (''people's republic of china'', ''china''),
      (''usa'', ''united states''),
      (''us'', ''united states''),
      (''u.s.'', ''united states''),
      (''u.s.a.'', ''united states''),
      (''america'', ''united states''),
      (''uk'', ''united kingdom''),
      (''great britain'', ''united kingdom''),
      (''deutschland'', ''germany''),
      (''vn'', ''vietnam''),
      (''kr'', ''south korea''),
      (''dprk'', ''north korea''),
      (''roc'', ''taiwan''),
      (''taipei'', ''taiwan''),
      (''mx'', ''mexico''),
      (''ca'', ''canada''),
      (''jp'', ''japan''),
      (''sk'', ''south korea''),
      (''republic of korea'', ''south korea''),
      (''my'', ''malaysia''),
      (''th'', ''thailand''),
      (''id'', ''indonesia''),
      (''in'', ''india''),
      (''br'', ''brazil''),
      (''de'', ''germany''),
      (''fr'', ''france''),
      (''it'', ''italy''),
      (''es'', ''spain''),
      (''se'', ''sweden''),
      (''pl'', ''poland''),
      (''tr'', ''turkey''),
      (''turkiye'', ''turkey''),
      (''ru'', ''russia''),
      (''russian federation'', ''russia''),
      (''viet nam'', ''vietnam'')]"

text \<open>
  \<^verbatim>\<open>normalizeCountryName\<close>: a falsy argument gives the empty string; a string is lowercased,
  trimmed and read from \<^verbatim>\<open>countryMap\<close>, and \<^verbatim>\<open>countryMap[normalized] || normalized\<close> keeps
  whatever truthy value the read yields. Any other truthy argument has no
  \<^verbatim>\<open>toLowerCase\<close> method, and calling it throws.
\<close>

definition normalizeCountryName :: "jsval \<Rightarrow> error + jsval" where
  "normalizeCountryName countryName =
     (if \<not> truthy countryName then Inr (JStr [])
      else case countryName of
             JStr s \<Rightarrow>
               (let normalized = trim (toLowerCase s);
                    found = getProperty countryMap normalized
                in Inr (if truthy found then found else JStr normalized))
           | _ \<Rightarrow> Inl TypeError)"

subsection \<open>Rates by country\<close>

record enrichedData =
  normalizedCountry :: jsval
  htsCode :: string

record rateAndMessage =
  rate :: jsnum
  rateMessage :: message

definition ftaCountries :: "string list" where
  "ftaCountries =
     [''canada'', ''mexico'', ''australia'', ''bahrain'', ''chile'',
      ''colombia'', ''israel'', ''jordan'', ''morocco'', ''oman'',
      ''panama'', ''peru'', ''singapore'']"

text \<open>
  \<^verbatim>\<open>adjustTariffForCountry(baseRate, productData)\<close> reads the normalized country; neither
  the base rate nor the chapter of the HTS code enters any branch.
\<close>

definition adjustTariffForCountry :: "jsnum \<Rightarrow> enrichedData \<Rightarrow> rateAndMessage" where
  "adjustTariffForCountry baseRate pd =
     (let country = normalizedCountry pd;
          chapter = take 2 (htsCode pd)
      in if country = JStr ''china'' then
           \<lparr> rate = Num 0.54,
             rateMessage = [Txt ''This product from China is subject to a combined 54% tariff rate (34% reciprocal + 20% existing tariffs)''] \<rparr>
         else if country = JStr ''japan'' then
           \<lparr> rate = Num 0.10,
             rateMessage = [Txt ''This product from Japan is subject to a 10% baseline tariff rate under the April 2025 tariff policy (reduced from 24% for 90 days)''] \<rparr>
         else if country = JStr ''south korea'' \<or> country = JStr ''korea'' then
           \<lparr> rate = Num 0.25,
             rateMessage = [Txt ''This product from South Korea is subject to a 25% tariff rate under the April 2025 tariff policy''] \<rparr>
         else if country = JStr ''taiwan'' then
           \<lparr> rate = Num 0.32,
             rateMessage = [Txt ''This product from Taiwan is subject to a 32% tariff rate under the April 2025 tariff policy''] \<rparr>
         else if country = JStr ''european union'' \<or> country = JStr ''eu'' \<or>
                 country = JStr ''germany'' \<or> country = JStr ''france'' \<or>
                 country = JStr ''italy'' \<or> country = JStr ''spain'' then
           \<lparr> rate = Num 0.20,
             rateMessage = [Txt ''This product from the European Union is subject to a 20% tariff rate under the April 2025 tariff policy''] \<rparr>
         else if country = JStr ''vietnam'' then
           \<lparr> rate = Num 0.46,
             rateMessage = [Txt ''This product from Vietnam is subject to a 46% tariff rate under the April 2025 tariff policy''] \<rparr>
         else if country = JStr ''india'' then
           \<lparr> rate = Num 0.40,
             rateMessage = [Txt ''This product from India is subject to a 40% tariff rate under the April 2025 tariff policy''] \<rparr>
         else if country = JStr ''indonesia'' then
           \<lparr> rate = Num 0.32,
             rateMessage = [Txt ''This product from Indonesia is subject to a 32% tariff rate under the April 2025 tariff policy''] \<rparr>
         else if country = JStr ''thailand'' then
           \<lparr> rate = Num 0.20,
             rateMessage = [Txt ''This product from Thailand is subject to a 20% tariff rate under the April 2025 tariff policy''] \<rparr>
         else if country = JStr ''malaysia'' then
           \<lparr> rate = Num 0.25,
             rateMessage = [Txt ''This product from Malaysia is subject to a 25% tariff rate under the April 2025 tariff policy''] \<rparr>
         else if country = JStr ''mexico'' \<or> country = JStr ''canada'' then
           \<lparr> rate = Num 0.25,
             rateMessage = [Txt (''This product from '' @ toStr country @
                                 '' is subject to a 25% tariff under the 2025 USMCA revisions'')] \<rparr>
         else if country \<in> JStr ` set ftaCountries then
           \<lparr> rate = Num 0.10,
             rateMessage = [Txt (''Products from '' @ toStr country @
                                 '' are subject to the universal 10% baseline tariff implemented in April 2025'')] \<rparr>
         else
           \<lparr> rate = Num 0.10,
             rateMessage = [Txt (''Products from '' @ toStr country @
                                 '' are subject to the universal 10% baseline tariff implemented in April 2025'')] \<rparr>)"

text \<open>
  \<^verbatim>\<open>fallbackTariffCheck\<close> normalizes the raw country itself and has a table of its own;
  it ends with the same decomposition as \<^verbatim>\<open>content.js\<close>.
\<close>

definition fallbackRate :: "jsval \<Rightarrow> rule" where
  "fallbackRate country =
     (if country = JStr ''china'' then
        (Num 0.54, True,
         [Txt ''Using fallback data: This product from China is subject to a combined 54% tariff rate (34% reciprocal + 20% existing tariffs)''])
      else if country = JStr ''japan'' then
        (Num 0.10, True,
         [Txt ''Using fallback data: This product from Japan is subject to a 10% baseline tariff rate under the April 2025 tariff policy (reduced from 24% for 90 days)''])
      else if country = JStr ''south korea'' \<or> country = JStr ''korea'' then
        (Num 0.25, True,
         [Txt ''Using fallback data: This product from South Korea is subject to a 25% tariff rate under the April 2025 tariff policy''])
      else if country = JStr ''taiwan'' then
        (Num 0.32, True,
         [Txt ''Using fallback data: This product from Taiwan is subject to a 32% tariff rate under the April 2025 tariff policy''])
      else if country = JStr ''european union'' \<or> country = JStr ''eu'' \<or>
              country = JStr ''germany'' \<or> country = JStr ''france'' \<or>
              country = JStr ''italy'' \<or> country = JStr ''spain'' then
        (Num 0.20, True,
         [Txt ''Using fallback data: This product from the European Union is subject to a 20% tariff rate under the April 2025 tariff policy''])
      else if country = JStr ''vietnam'' then
        (Num 0.46, True,
         [Txt ''Using fallback data: This product from Vietnam is subject to a 46% tariff rate under the April 2025 tariff policy''])
      else if country = JStr ''india'' then
        (Num 0.40, True,
         [Txt ''Using fallback data: This product from India is subject to a 40% tariff rate under the April 2025 tariff policy''])
      else if country = JStr ''brazil'' then
        (Num 0.10, True,
         [Txt ''Using fallback data: This product from Brazil is subject to a 10% tariff rate under the April 2025 tariff policy''])
      else if country = JStr ''indonesia'' then
        (Num 0.32, True,
         [Txt ''Using fallback data: This product from Indonesia is subject to a 32% tariff rate under the April 2025 tariff policy''])
      else if country = JStr ''thailand'' then
        (Num 0.20, True,
         [Txt ''Using fallback data: This product from Thailand is subject to a 20% tariff rate under the April 2025 tariff policy''])
      else if country = JStr ''malaysia'' then
        (Num 0.25, True,
         [Txt ''Using fallback data: This product from Malaysia is subject to a 25% tariff rate under the April 2025 tariff policy''])
      else if country = JStr ''mexico'' \<or> country = JStr ''canada'' then
        (Num 0.25, True,
         [Txt (''Using fallback data: This product from '' @ toStr country @
               '' is subject to a 25% tariff under the 2025 USMCA revisions'')])
      else if country = JStr ''united kingdom'' \<or> country = JStr ''uk'' then
        (Num 0.10, True,
         [Txt ''Using fallback data: This product from the UK is subject to a 10% tariff rate under the April 2025 tariff policy''])
      else if country = JStr ''australia'' then
        (Num 0.10, True,
         [Txt ''Using fallback data: This product from Australia is subject to a 10% tariff rate under the April 2025 tariff policy''])
      else if country = JStr ''unknown'' then
        (Num 0.10, True,
         [Txt ''Using fallback data: Country of origin unknown, applying the minimum baseline 10% tariff''])
      else
        (Num 0.10, True,
         [Txt (''Using fallback data: Products from '' @ toStr country @
               '' are subject to the universal 10% baseline tariff implemented in April 2025'')]))"

definition fallbackTariffCheck :: "productData \<Rightarrow> error + tariffResult" where
  "fallbackTariffCheck pd =
     (case normalizeCountryName (JStr (countryOfOrigin pd)) of
        Inl e \<Rightarrow> Inl e
      | Inr country \<Rightarrow>
          (let p = price pd;
               (r, subject, msg) = fallbackRate country;
               (pre, amount) = percentageSplit p r
           in Inr \<lparr> isSubjectToTariff = subject, tariffRate = r, preTariffPrice = pre,
                    tariffAmount = amount, message = msg, isFallback = True \<rparr>))"

subsection \<open>The cache\<close>

text \<open>
  \<^verbatim>\<open>tariffCache\<close> is one object for the whole session: a store and one timestamp. The
  clock \<^verbatim>\<open>Date.now()\<close> (milliseconds) is an argument of each operation. Keys are the
  strings \<^verbatim>\<open>constructCacheKey\<close> joins with a hyphen from at least two parts, so none of
  them is the name of an inherited property, and the store is a map.
\<close>

record tariffData =
  dataRate :: jsnum
  dataMessage :: message
  dataHtsCode :: string

record tariffCache =
  cacheData :: "string \<rightharpoonup> tariffData"
  timestamp :: int

definition CACHE_DURATION :: int where
  "CACHE_DURATION = 24 * 60 * 60 * 1000"

definition initialCache :: tariffCache where
  "initialCache = \<lparr> cacheData = Map.empty, timestamp = 0 \<rparr>"

definition hasCachedTariffData :: "int \<Rightarrow> string \<Rightarrow> tariffCache \<Rightarrow> bool \<times> tariffCache" where
  "hasCachedTariffData now cacheKey c =
     (if now - timestamp c > CACHE_DURATION then
        (False, c\<lparr> cacheData := Map.empty, timestamp := now \<rparr>)
      else (cacheData c cacheKey \<noteq> None, c))"

record cachedTariffInfo =
  infoIsSubjectToTariff :: bool
  infoTariffAmount :: jsnum
  infoTariffRate :: jsnum
  infoMessage :: message

definition getCachedTariffData :: "string \<Rightarrow> jsnum \<Rightarrow> tariffCache \<Rightarrow> error + cachedTariffInfo" where
  "getCachedTariffData cacheKey p c =
     (case cacheData c cacheKey of
        None \<Rightarrow> Inl TypeError
      | Some td \<Rightarrow>
          Inr \<lparr> infoIsSubjectToTariff = js_gt (dataRate td) (Num 0),
                infoTariffAmount = js_mul p (dataRate td),
                infoTariffRate = dataRate td,
                infoMessage = dataMessage td \<rparr>)"

definition cacheTariffData :: "int \<Rightarrow> string \<Rightarrow> tariffData \<Rightarrow> tariffCache \<Rightarrow> tariffCache" where
  "cacheTariffData now cacheKey td c =
     c\<lparr> cacheData := (cacheData c)(cacheKey \<mapsto> td), timestamp := now \<rparr>"

text \<open>
  A session is a sequence of cache operations, each with the clock reading at which it
  runs: the lookup of \<^verbatim>\<open>getTariffInfo\<close> (lines 40-42) and its store (line 48).
\<close>

datatype cacheOp = Lookup string | Store string tariffData

fun cacheStep :: "tariffCache \<Rightarrow> int \<times> cacheOp \<Rightarrow> tariffCache" where
  "cacheStep c (now, Lookup k) = snd (hasCachedTariffData now k c)"
| "cacheStep c (now, Store k td) = cacheTariffData now k td c"

definition runCache :: "(int \<times> cacheOp) list \<Rightarrow> tariffCache \<Rightarrow> tariffCache" where
  "runCache ops c = foldl cacheStep c ops"

text \<open>
  What a lookup hands back: the stored entry when \<^verbatim>\<open>hasCachedTariffData\<close> says there is
  one, nothing otherwise.
\<close>

definition lookupEntry :: "int \<Rightarrow> string \<Rightarrow> tariffCache \<Rightarrow> tariffData option" where
  "lookupEntry now k c =
     (case hasCachedTariffData now k c of
        (True, c') \<Rightarrow> cacheData c' k
      | (False, c') \<Rightarrow> None)"

section \<open>Sample inputs\<close>

definition kettleFromJapan :: productData where
  "kettleFromJapan =
     \<lparr> productTitle = ''Pour-over kettle'', price = Num 110,
       countryOfOrigin = ''Japan'', category = Some ''Kitchen'' \<rparr>"

definition toysFromChina :: productData where
  "toysFromChina =
     \<lparr> productTitle = ''Building blocks'', price = Num 80,
       countryOfOrigin = ''China'', category = Some ''toys'' \<rparr>"

definition toysFromHongKong :: productData where
  "toysFromHongKong =
     \<lparr> productTitle = ''Model railway'', price = Num 90,
       countryOfOrigin = ''Hong Kong'', category = Some ''toys'' \<rparr>"

definition electronicsFromChina :: productData where
  "electronicsFromChina =
     \<lparr> productTitle = ''Headphones'', price = Num 200,
       countryOfOrigin = ''China'', category = Some ''electronics'' \<rparr>"

definition produceFromMexico :: productData where
  "produceFromMexico =
     \<lparr> productTitle = ''Avocados'', price = Num 50,
       countryOfOrigin = ''Mexico'', category = Some ''produce'' \<rparr>"

definition unknownOrigin :: productData where
  "unknownOrigin =
     \<lparr> productTitle = ''Notebook'', price = Num 30,
       countryOfOrigin = ''Unknown'', category = None \<rparr>"

definition unknownOriginElectronics :: productData where
  "unknownOriginElectronics =
     \<lparr> productTitle = ''USB cable'', price = Num 30,
       countryOfOrigin = ''Unknown'', category = Some ''Electronics'' \<rparr>"

text \<open>
  A session of the cache, as two runs of \<^verbatim>\<open>getTariffInfo\<close> produce it: a lookup at
  \<open>sessionStart\<close> (which resets the fresh cache) and the store of its result 300 ms later,
  then the same for another key 23 hours after the start.
\<close>

definition sampleEntry :: tariffData where
  "sampleEntry =
     \<lparr> dataRate = Num 0.54,
       dataMessage = [Txt ''This product from China is subject to a combined 54% tariff rate (34% reciprocal + 20% existing tariffs)''],
       dataHtsCode = ''95'' \<rparr>"

definition otherEntry :: tariffData where
  "otherEntry =
     \<lparr> dataRate = Num 0.10,
       dataMessage = [Txt ''This product from Japan is subject to a 10% baseline tariff rate under the April 2025 tariff policy (reduced from 24% for 90 days)''],
       dataHtsCode = ''85'' \<rparr>"

definition hour :: int where
  "hour = 60 * 60 * 1000"

definition sessionStart :: int where
  "sessionStart = 1746144000000"

definition refreshedSession :: "(int \<times> cacheOp) list" where
  "refreshedSession =
     [(sessionStart, Lookup ''china-95''),
      (sessionStart + 300, Store ''china-95'' sampleEntry),
      (sessionStart + 23 * hour, Lookup ''japan-85-elec''),
      (sessionStart + 23 * hour + 300, Store ''japan-85-elec'' otherEntry)]"

section \<open>Properties\<close>

subsection \<open>Arithmetic of the decomposition\<close>

lemma nonnegFinite_iff: "nonnegFinite r = (\<exists>x. r = Num x \<and> 0 \<le> x)"
  by (cases r) auto

lemma percentageSplit_finite:
  assumes "0 \<le> r"
  shows "percentageSplit (Num p) (Num r) = (Num (p / (1 + r)), Num (p - p / (1 + r)))"
  using assms by (simp add: percentageSplit_def js_sub_def)

lemma split_identity:
  fixes p r :: real
  assumes "0 \<le> r"
  shows "p / (1 + r) * (1 + r) = p \<and> (p - p / (1 + r)) + p / (1 + r) = p"
proof -
  from assms have "1 + r \<noteq> 0" by linarith
  then show ?thesis by simp
qed

subsection \<open>Rates of the rule tables\<close>

lemma namedCountryRule_rate:
  "namedCountryRule c cat = Some a \<Longrightarrow> nonnegFinite (fst a)"
  by (auto simp: namedCountryRule_def split: if_splits)

lemma flat_rate_cases:
  "0 \<le> p \<Longrightarrow>
     nonnegFinite (js_div (Num 100) (Num p)) \<or> (p = 0 \<and> js_div (Num 100) (Num p) = PosInf)"
  by (simp add: signed_inf_def)

lemma rateRule_rate:
  assumes "0 \<le> p"
  shows "nonnegFinite (fst (rateRule c (Num p) cat)) \<or>
         (p = 0 \<and> fst (rateRule c (Num p) cat) = PosInf)"
proof (cases "includes_str c ''china'' \<or> includes_str c ''hong kong''")
  case True
  then show ?thesis using flat_rate_cases [OF assms]
    by (auto simp: rateRule_def Let_def simp del: js_div.simps)
next
  case False
  show ?thesis
  proof (cases "namedCountryRule c cat")
    case None
    with False show ?thesis
      by (simp add: rateRule_def baselineRule_def)
  next
    case (Some a)
    with False namedCountryRule_rate [OF Some] show ?thesis
      by (simp add: rateRule_def)
  qed
qed

lemma fallbackRate_rate: "nonnegFinite (fst (fallbackRate c))"
  by (simp add: fallbackRate_def)

lemma normalizeCountryName_string_total: "\<exists>v. normalizeCountryName (JStr s) = Inr v"
  by (simp add: normalizeCountryName_def Let_def)

lemma fallbackCalculation_fields:
  "tariffRate (fallbackCalculation pd) =
     fst (rateRule (toLowerCase (countryOfOrigin pd)) (price pd) (lowerCategory (category pd)))"
  "preTariffPrice (fallbackCalculation pd) = fst (percentageSplit (price pd) (tariffRate (fallbackCalculation pd)))"
  "tariffAmount (fallbackCalculation pd) = snd (percentageSplit (price pd) (tariffRate (fallbackCalculation pd)))"
  by (simp_all add: fallbackCalculation_def Let_def split: prod.splits)

text \<open>
  Claim C1. For every observed price \<open>p \<ge> 0\<close> and every rate \<open>r \<ge> 0\<close> the decomposition
  yields the pre-tariff price \<open>p / (1 + r)\<close> and the tariff amount \<open>p - p / (1 + r)\<close>, and
  these satisfy \<open>pre * (1 + r) = p\<close> and \<open>amount + pre = p\<close> over the reals. It is what
  \<^verbatim>\<open>fallbackCalculation\<close> of \<^verbatim>\<open>content.js\<close> returns whenever its rate is finite, and what
  \<^verbatim>\<open>fallbackTariffCheck\<close> returns on every input; all their rates are non-negative.
\<close>

theorem percentage_decomposition:
  assumes "price pd = Num p" and "0 \<le> p"
  shows "(\<forall>r. 0 \<le> r \<longrightarrow>
            percentageSplit (Num p) (Num r) = (Num (p / (1 + r)), Num (p - p / (1 + r))) \<and>
            p / (1 + r) * (1 + r) = p \<and> (p - p / (1 + r)) + p / (1 + r) = p) \<and>
         (\<forall>r. tariffRate (fallbackCalculation pd) = Num r \<longrightarrow>
            0 \<le> r \<and>
            preTariffPrice (fallbackCalculation pd) = Num (p / (1 + r)) \<and>
            tariffAmount (fallbackCalculation pd) = Num (p - p / (1 + r))) \<and>
         (\<exists>res r. fallbackTariffCheck pd = Inr res \<and> tariffRate res = Num r \<and> 0 \<le> r \<and>
            preTariffPrice res = Num (p / (1 + r)) \<and>
            tariffAmount res = Num (p - p / (1 + r)))"
proof (intro conjI allI impI)
  fix r :: real assume "0 \<le> r"
  then show "percentageSplit (Num p) (Num r) = (Num (p / (1 + r)), Num (p - p / (1 + r)))"
    by (rule percentageSplit_finite)
  from \<open>0 \<le> r\<close> show "p / (1 + r) * (1 + r) = p" using split_identity by blast
  from \<open>0 \<le> r\<close> show "(p - p / (1 + r)) + p / (1 + r) = p" using split_identity by blast
next
  fix r assume r: "tariffRate (fallbackCalculation pd) = Num r"
  let ?c = "toLowerCase (countryOfOrigin pd)" and ?cat = "lowerCategory (category pd)"
  from r assms(1) have rr: "fst (rateRule ?c (Num p) ?cat) = Num r"
    by (simp add: fallbackCalculation_fields(1))
  with rateRule_rate [OF assms(2), of ?c ?cat] show nonneg: "0 \<le> r" by auto
  from r assms(1) percentageSplit_finite [OF nonneg, of p]
  show "preTariffPrice (fallbackCalculation pd) = Num (p / (1 + r))"
    by (simp add: fallbackCalculation_fields(2))
  from r assms(1) percentageSplit_finite [OF nonneg, of p]
  show "tariffAmount (fallbackCalculation pd) = Num (p - p / (1 + r))"
    by (simp add: fallbackCalculation_fields(3))
next
  obtain v where v: "normalizeCountryName (JStr (countryOfOrigin pd)) = Inr v"
    using normalizeCountryName_string_total by blast
  obtain a s m where f: "fallbackRate v = (a, s, m)" by (cases "fallbackRate v")
  with fallbackRate_rate [of v] obtain x where x: "a = Num x" "0 \<le> x"
    by (auto simp: nonnegFinite_iff)
  from v f x assms(1) percentageSplit_finite [OF x(2), of p]
  show "\<exists>res r. fallbackTariffCheck pd = Inr res \<and> tariffRate res = Num r \<and> 0 \<le> r \<and>
            preTariffPrice res = Num (p / (1 + r)) \<and>
            tariffAmount res = Num (p - p / (1 + r))"
    by (simp add: fallbackTariffCheck_def Let_def)
qed

lemma kettle_content: "fallbackCalculation kettleFromJapan =
   \<lparr> isSubjectToTariff = True, tariffRate = Num 0.1, preTariffPrice = Num 100,
     tariffAmount = Num 10,
     message = [Txt ''This product from Japan is subject to a 10% tariff rate under the May 2025 trade policy''],
     isFallback = True \<rparr>"
  by code_simp

theorem percentage_decomposition_witness:
  "price kettleFromJapan = Num 110 \<and> (0::real) \<le> 110 \<and>
   percentageSplit (Num 110) (Num 0.1) = (Num 100, Num 10) \<and>
   tariffRate (fallbackCalculation kettleFromJapan) = Num 0.1 \<and>
   preTariffPrice (fallbackCalculation kettleFromJapan) = Num 100 \<and>
   tariffAmount (fallbackCalculation kettleFromJapan) = Num 10 \<and>
   fallbackTariffCheck kettleFromJapan =
     Inr \<lparr> isSubjectToTariff = True, tariffRate = Num 0.1, preTariffPrice = Num 100,
           tariffAmount = Num 10,
           message = [Txt ''Using fallback data: This product from Japan is subject to a 10% baseline tariff rate under the April 2025 tariff policy (reduced from 24% for 90 days)''],
           isFallback = True \<rparr>"
proof -
  have h1: "price kettleFromJapan = Num 110" by (simp add: kettleFromJapan_def)
  have h2: "(0::real) \<le> 110" by simp
  note t = percentage_decomposition [OF h1 h2]
  have rate: "tariffRate (fallbackCalculation kettleFromJapan) = Num 0.1"
    by (simp add: kettle_content)
  have "(0::real) \<le> 0.1" by simp
  from t [THEN conjunct1, rule_format, OF this]
  have a: "percentageSplit (Num 110) (Num 0.1) = (Num 100, Num 10)"
    by simp
  from t [THEN conjunct2, THEN conjunct1, rule_format, OF rate]
  have b: "preTariffPrice (fallbackCalculation kettleFromJapan) = Num 100 \<and>
      tariffAmount (fallbackCalculation kettleFromJapan) = Num 10"
    by simp
  have c: "fallbackTariffCheck kettleFromJapan =
     Inr \<lparr> isSubjectToTariff = True, tariffRate = Num 0.1, preTariffPrice = Num 100,
           tariffAmount = Num 10,
           message = [Txt ''Using fallback data: This product from Japan is subject to a 10% baseline tariff rate under the April 2025 tariff policy (reduced from 24% for 90 days)''],
           isFallback = True \<rparr>"
    by code_simp
  from h1 h2 a rate b c show ?thesis by blast
qed

subsection \<open>China on the postal channel\<close>

lemma chinaBranch_postal:
  assumes "isPostalShipment (Num p) cat"
  shows "chinaBranch (Num p) cat initialVars =
     \<lparr> isSubjectToTariff = True, tariffRate = Num 0, preTariffPrice = Num (p - p * 0.7),
       tariffAmount = Num (p * 0.7),
       message =
         [Txt ''This product from China would normally be subject to a $100 flat fee tariff, but since the product price is only $'',
          ToFixed (Num p) 2,
          Txt '', the tariff shown is an approximation. The actual $100 flat fee would be applied at customs for direct imports.''],
       isFallback = True, isUsingFlatFee = True, flatFeeAmount = Num (p * 0.7),
       specialPriceLogic = True \<rparr>"
proof -
  from assms(1) have lt: "p < 100" by (simp add: isPostalShipment_def)
  have split: "percentageSplit (Num p) (Num 1.2) = (Num (p / 2.2), Num (p - p / 2.2))"
    by (simp add: percentageSplit_def js_sub_def)
  from lt have "\<not> 100 < p - p / 2.2" by simp
  with lt assms(1) split show ?thesis
    by (simp add: chinaBranch_def initialVars_def js_gt_def js_sub_def Let_def)
qed

lemma chinaBranch_not_postal:
  "\<not> isPostalShipment p cat \<Longrightarrow> \<not> isUsingFlatFee (chinaBranch p cat initialVars)"
  by (simp add: chinaBranch_def initialVars_def Let_def split: prod.splits)

lemma setRule_no_flat_fee: "\<not> isUsingFlatFee (setRule r initialVars)"
  by (simp add: setRule_def initialVars_def split: prod.splits)

lemma finishPercentage_flat_fee:
  "isUsingFlatFee (finishPercentage p v) = isUsingFlatFee v"
  "isUsingFlatFee v \<Longrightarrow> finishPercentage p v = v"
  by (simp_all add: finishPercentage_def Let_def split: prod.splits)

lemma injected_flat_fee_only_china_postal:
  assumes "isUsingFlatFee (fallbackCalculation_injected pd)"
  shows "isPostalShipment (price pd) (lowerCategory (category pd)) \<and>
         fallbackCalculation_injected pd =
           chinaBranch (price pd) (lowerCategory (category pd)) initialVars"
proof -
  let ?c = "toLowerCase (countryOfOrigin pd)" and ?cat = "lowerCategory (category pd)"
  let ?v = "if includes_str ?c ''china'' \<or> includes_str ?c ''hong kong'' then
                 chinaBranch (price pd) ?cat initialVars
               else
                 (case namedCountryRule ?c ?cat of
                    Some r \<Rightarrow> setRule r initialVars
                  | None \<Rightarrow>
                      if ?c = ''unknown'' then
                        setRule (Num 0.10, True,
                                 [Txt ''Country of origin unknown, applying the minimum baseline 10% tariff''])
                                initialVars
                      else setRule (baselineRule ?c) initialVars)"
  have eq: "fallbackCalculation_injected pd = finishPercentage (price pd) ?v"
    by (simp add: fallbackCalculation_injected_def Let_def)
  with assms have flat: "isUsingFlatFee ?v"
    by (simp only: finishPercentage_flat_fee(1))
  then have china: "includes_str ?c ''china'' \<or> includes_str ?c ''hong kong''"
    by (auto simp: setRule_no_flat_fee split: if_splits option.splits)
  with flat have cb: "isUsingFlatFee (chinaBranch (price pd) ?cat initialVars)" by simp
  then have postal: "isPostalShipment (price pd) ?cat"
    using chinaBranch_not_postal by blast
  from eq china finishPercentage_flat_fee(2) [OF cb]
  have "fallbackCalculation_injected pd = chinaBranch (price pd) ?cat initialVars"
    by simp
  with postal show ?thesis by simp
qed

lemma percent_beats_flat_iff:
  fixes p :: real
  assumes "0 < p"
  shows "(p - p / (1 + 100 / p) < p - p / (1 + 1.2)) = (100 < p * 1.2)"
proof -
  from assms have pos: "0 < 1 + 100 / p" by (simp add: add_pos_pos)
  have "(p - p / (1 + 100 / p) < p - p / (1 + 1.2)) = (p / (1 + 1.2) < p / (1 + 100 / p))"
    by auto
  also from assms pos have "\<dots> = (1 + 100 / p < 1 + 1.2)"
    by (simp add: field_simps)
  also from assms have "\<dots> = (100 < p * 1.2)"
    by (simp add: field_simps)
  finally show ?thesis .
qed

lemma rateRule_china_postal:
  assumes "includes_str c ''china'' \<or> includes_str c ''hong kong''"
    and "isPostalShipment (Num p) cat"
  shows "fst (rateRule c (Num p) cat) =
           (if 100 < p * 1.2 then Num 1.2 else js_div (Num 100) (Num p))"
  using assms by (simp add: rateRule_def Let_def js_gt_def del: js_div.simps)

lemma content_china_postal_amount:
  assumes "0 \<le> p"
  shows "snd (percentageSplit (Num p) (if 100 < p * 1.2 then Num 1.2 else js_div (Num 100) (Num p))) =
     (let byPercent = snd (percentageSplit (Num p) (Num 1.2));
          byFlatFee = snd (percentageSplit (Num p) (js_div (Num 100) (Num p)))
      in if js_gt byPercent byFlatFee then byPercent else byFlatFee)"
proof (cases "p = 0")
  case True
  then show ?thesis
    by (simp add: percentageSplit_def js_sub_def js_gt_def signed_inf_def Let_def)
next
  case False
  with assms have pos: "0 < p" by simp
  then have nz: "1 + 100 / p \<noteq> 0" by (smt (verit) divide_pos_pos)
  from pos nz percent_beats_flat_iff [OF pos] show ?thesis
    by (simp add: percentageSplit_def js_sub_def js_gt_def Let_def)
qed

lemma toysFromChina_facts:
  "includes_str (toLowerCase (countryOfOrigin toysFromChina)) ''china''"
  "price toysFromChina = Num 80"
  "\<not> includes_str (lowerCategory (category toysFromChina)) ''electronics''"
  "\<not> includes_str (lowerCategory (category toysFromChina)) ''appliance''"
  by code_simp+

lemma rateRule_china_postal_rule:
  assumes "includes_str c ''china'' \<or> includes_str c ''hong kong''"
    and "isPostalShipment (Num p) cat"
  shows "rateRule c (Num p) cat =
           (if 100 < p * 1.2 then
              (Num 1.2, True,
               [Txt ''This product from China is subject to a 120% tariff rate as a postal shipment under the May 2025 trade policy''])
            else
              (js_div (Num 100) (Num p), True,
               [Txt ''This product from China is subject to a $100 flat fee as a postal shipment under the May 2025 trade policy (equivalent to a '',
                ToFixed (js_mul (js_div (Num 100) (Num p)) (Num 100)) 1,
                Txt ''% rate)'']))"
  using assms by (simp add: rateRule_def Let_def js_gt_def del: js_div.simps)

lemma toysFromHongKong_facts:
  "includes_str (toLowerCase (countryOfOrigin toysFromHongKong)) ''hong kong''"
  "price toysFromHongKong = Num 90"
  "\<not> includes_str (lowerCategory (category toysFromHongKong)) ''electronics''"
  "\<not> includes_str (lowerCategory (category toysFromHongKong)) ''appliance''"
  by code_simp+

text \<open>
  Claim C2 says that on the postal channel the resolver keeps whichever of the 120% tariff
  and the $100 flat fee yields the larger tariff amount. The two scripts do not agree on
  which that is. For toys from Hong Kong at 90 \<^verbatim>\<open>content.js\<close> keeps the 120% rate and
  returns the tariff amount \<open>540 / 11\<close>, which is below the fee of $100 and below the 63
  that \<^verbatim>\<open>content-injection.js\<close> returns for the same product; \<^verbatim>\<open>content-injection.js\<close>
  keeps the fee, although 120% of the price is 108 and above the fee. Whatever the measure
  of the larger amount, one of the two has kept the smaller.
\<close>

theorem china_postal_scripts_disagree_counterexample:
  "isPostalShipment (price toysFromHongKong) (lowerCategory (category toysFromHongKong)) \<and>
   tariffRate (fallbackCalculation toysFromHongKong) = Num 1.2 \<and>
   message (fallbackCalculation toysFromHongKong) =
     [Txt ''This product from China is subject to a 120% tariff rate as a postal shipment under the May 2025 trade policy''] \<and>
   tariffAmount (fallbackCalculation toysFromHongKong) = Num (540 / 11) \<and>
   js_lt (tariffAmount (fallbackCalculation toysFromHongKong)) (Num 100) \<and>
   isUsingFlatFee (fallbackCalculation_injected toysFromHongKong) \<and>
   tariffRate (fallbackCalculation_injected toysFromHongKong) = Num 0 \<and>
   tariffAmount (fallbackCalculation_injected toysFromHongKong) = Num 63 \<and>
   js_lt (tariffAmount (fallbackCalculation toysFromHongKong))
         (tariffAmount (fallbackCalculation_injected toysFromHongKong)) \<and>
   js_mul (price toysFromHongKong) (Num 1.2) = Num 108 \<and>
   js_gt (js_mul (price toysFromHongKong) (Num 1.2)) (Num 100)"
  by code_simp

text \<open>
  Claim C2 as amended. For a product from China (or Hong Kong) on the inferred postal
  channel, that is a price below 100 and a category naming neither electronics nor
  appliances, each script weighs the 120% tariff against the $100 flat fee by a measure of
  its own. \<^verbatim>\<open>content.js\<close> compares 120% of the price with $100: it keeps the rate 1.2 when
  that is above $100 and the fee, as the rate \<open>100 / price\<close>, otherwise, and the tariff
  amount it returns is the larger of the amounts the decomposition gives under these two
  rates. \<^verbatim>\<open>content-injection.js\<close> compares the amount of the decomposition under 120% with
  $100; that amount is never above $100 on this channel, so it always keeps the fee and
  returns 70% of the price, which is not below the amount under 120%.
\<close>

theorem china_postal_selection_by_script:
  assumes china: "includes_str (toLowerCase (countryOfOrigin pd)) ''china'' \<or>
                  includes_str (toLowerCase (countryOfOrigin pd)) ''hong kong''"
    and price: "price pd = Num p" "0 \<le> p" "p < 100"
    and cat: "\<not> includes_str (lowerCategory (category pd)) ''electronics''"
             "\<not> includes_str (lowerCategory (category pd)) ''appliance''"
  shows "isSubjectToTariff (fallbackCalculation pd) \<and>
         tariffRate (fallbackCalculation pd) =
           (if js_gt (js_mul (Num p) (Num 1.2)) (Num 100) then Num 1.2
            else js_div (Num 100) (Num p)) \<and>
         message (fallbackCalculation pd) =
           (if js_gt (js_mul (Num p) (Num 1.2)) (Num 100) then
              [Txt ''This product from China is subject to a 120% tariff rate as a postal shipment under the May 2025 trade policy'']
            else
              [Txt ''This product from China is subject to a $100 flat fee as a postal shipment under the May 2025 trade policy (equivalent to a '',
               ToFixed (js_mul (js_div (Num 100) (Num p)) (Num 100)) 1,
               Txt ''% rate)'']) \<and>
         preTariffPrice (fallbackCalculation pd) =
           fst (percentageSplit (Num p) (tariffRate (fallbackCalculation pd))) \<and>
         tariffAmount (fallbackCalculation pd) =
           (let byPercent = snd (percentageSplit (Num p) (Num 1.2));
                byFlatFee = snd (percentageSplit (Num p) (js_div (Num 100) (Num p)))
            in if js_gt byPercent byFlatFee then byPercent else byFlatFee) \<and>
         \<not> js_gt (snd (percentageSplit (Num p) (Num 1.2))) (Num 100) \<and>
         isSubjectToTariff (fallbackCalculation_injected pd) \<and>
         isUsingFlatFee (fallbackCalculation_injected pd) \<and>
         specialPriceLogic (fallbackCalculation_injected pd) \<and>
         tariffRate (fallbackCalculation_injected pd) = Num 0 \<and>
         tariffAmount (fallbackCalculation_injected pd) = Num (0.7 * p) \<and>
         flatFeeAmount (fallbackCalculation_injected pd) = Num (0.7 * p) \<and>
         preTariffPrice (fallbackCalculation_injected pd) = Num (p - 0.7 * p) \<and>
         \<not> js_gt (snd (percentageSplit (Num p) (Num 1.2)))
                  (tariffAmount (fallbackCalculation_injected pd))"
proof -
  let ?c = "toLowerCase (countryOfOrigin pd)" and ?cat = "lowerCategory (category pd)"
  from price cat have postal: "isPostalShipment (Num p) ?cat"
    by (simp add: isPostalShipment_def)
  have cmp: "js_gt (js_mul (Num p) (Num 1.2)) (Num 100) = (100 < p * 1.2)"
    by (simp add: js_gt_def)
  note rule = rateRule_china_postal_rule [OF china postal]
  from price(1) rule
  have subject: "isSubjectToTariff (fallbackCalculation pd)"
    by (simp add: fallbackCalculation_def Let_def del: js_div.simps
        split: prod.splits if_splits)
  from price(1) rule
  have rate: "tariffRate (fallbackCalculation pd) =
           (if 100 < p * 1.2 then Num 1.2 else js_div (Num 100) (Num p))"
    by (simp add: fallbackCalculation_fields(1))
  from price(1) rule
  have msg: "message (fallbackCalculation pd) =
           (if 100 < p * 1.2 then
              [Txt ''This product from China is subject to a 120% tariff rate as a postal shipment under the May 2025 trade policy'']
            else
              [Txt ''This product from China is subject to a $100 flat fee as a postal shipment under the May 2025 trade policy (equivalent to a '',
               ToFixed (js_mul (js_div (Num 100) (Num p)) (Num 100)) 1,
               Txt ''% rate)''])"
    by (simp add: fallbackCalculation_def Let_def del: js_div.simps
        split: prod.splits)
  from price(1) have pre: "preTariffPrice (fallbackCalculation pd) =
           fst (percentageSplit (Num p) (tariffRate (fallbackCalculation pd)))"
    by (simp only: fallbackCalculation_fields(2))
  from rate price(1) content_china_postal_amount [OF price(2)]
  have amount: "tariffAmount (fallbackCalculation pd) =
           (let byPercent = snd (percentageSplit (Num p) (Num 1.2));
                byFlatFee = snd (percentageSplit (Num p) (js_div (Num 100) (Num p)))
            in if js_gt byPercent byFlatFee then byPercent else byFlatFee)"
    by (simp only: fallbackCalculation_fields(3))
  from price have below: "\<not> js_gt (snd (percentageSplit (Num p) (Num 1.2))) (Num 100)"
    by (simp add: percentageSplit_def js_sub_def js_gt_def)
  from china price(1) chinaBranch_postal [OF postal]
  have inj: "fallbackCalculation_injected pd =
     \<lparr> isSubjectToTariff = True, tariffRate = Num 0, preTariffPrice = Num (p - p * 0.7),
       tariffAmount = Num (p * 0.7),
       message =
         [Txt ''This product from China would normally be subject to a $100 flat fee tariff, but since the product price is only $'',
          ToFixed (Num p) 2,
          Txt '', the tariff shown is an approximation. The actual $100 flat fee would be applied at customs for direct imports.''],
       isFallback = True, isUsingFlatFee = True, flatFeeAmount = Num (p * 0.7),
       specialPriceLogic = True \<rparr>"
    by (simp add: fallbackCalculation_injected_def finishPercentage_def Let_def)
  have commute: "p * 0.7 = 0.7 * p" by simp
  from inj have fields:
    "isSubjectToTariff (fallbackCalculation_injected pd)"
    "isUsingFlatFee (fallbackCalculation_injected pd)"
    "specialPriceLogic (fallbackCalculation_injected pd)"
    "tariffRate (fallbackCalculation_injected pd) = Num 0"
    "tariffAmount (fallbackCalculation_injected pd) = Num (0.7 * p)"
    "flatFeeAmount (fallbackCalculation_injected pd) = Num (0.7 * p)"
    "preTariffPrice (fallbackCalculation_injected pd) = Num (p - 0.7 * p)"
    by (simp_all add: commute)
  from price(2) have "\<not> 0.7 * p < p - p / 2.2" by simp
  with fields(5)
  have notBelow: "\<not> js_gt (snd (percentageSplit (Num p) (Num 1.2)))
                  (tariffAmount (fallbackCalculation_injected pd))"
    by (simp add: percentageSplit_def js_sub_def js_gt_def)
  from subject rate msg pre amount below fields notBelow show ?thesis
    by (simp only: cmp) blast
qed

theorem china_postal_selection_by_script_witness:
  "(includes_str (toLowerCase (countryOfOrigin toysFromChina)) ''china'' \<or>
    includes_str (toLowerCase (countryOfOrigin toysFromChina)) ''hong kong'') \<and>
   price toysFromChina = Num 80 \<and> (0::real) \<le> 80 \<and> (80::real) < 100 \<and>
   \<not> includes_str (lowerCategory (category toysFromChina)) ''electronics'' \<and>
   \<not> includes_str (lowerCategory (category toysFromChina)) ''appliance'' \<and>
   tariffRate (fallbackCalculation toysFromChina) = Num 1.25 \<and>
   tariffAmount (fallbackCalculation toysFromChina) = Num (400 / 9) \<and>
   snd (percentageSplit (Num 80) (Num 1.2)) = Num (480 / 11) \<and>
   isUsingFlatFee (fallbackCalculation_injected toysFromChina) \<and>
   tariffRate (fallbackCalculation_injected toysFromChina) = Num 0 \<and>
   tariffAmount (fallbackCalculation_injected toysFromChina) = Num 56 \<and>
   preTariffPrice (fallbackCalculation_injected toysFromChina) = Num 24 \<and>
   (includes_str (toLowerCase (countryOfOrigin toysFromHongKong)) ''china'' \<or>
    includes_str (toLowerCase (countryOfOrigin toysFromHongKong)) ''hong kong'') \<and>
   price toysFromHongKong = Num 90 \<and> (0::real) \<le> 90 \<and> (90::real) < 100 \<and>
   \<not> includes_str (lowerCategory (category toysFromHongKong)) ''electronics'' \<and>
   \<not> includes_str (lowerCategory (category toysFromHongKong)) ''appliance'' \<and>
   tariffRate (fallbackCalculation toysFromHongKong) = Num 1.2 \<and>
   tariffAmount (fallbackCalculation toysFromHongKong) = Num (540 / 11) \<and>
   tariffAmount (fallbackCalculation_injected toysFromHongKong) = Num 63"
proof -
  have h1: "includes_str (toLowerCase (countryOfOrigin toysFromChina)) ''china'' \<or>
    includes_str (toLowerCase (countryOfOrigin toysFromChina)) ''hong kong''"
    using toysFromChina_facts(1) by simp
  have h3: "(0::real) \<le> 80" and h4: "(80::real) < 100" by simp_all
  note t = china_postal_selection_by_script
    [OF h1 toysFromChina_facts(2) h3 h4 toysFromChina_facts(3) toysFromChina_facts(4)]
  from t have rate: "tariffRate (fallbackCalculation toysFromChina) = Num 1.25"
    by (simp add: js_gt_def)
  from t have amount: "tariffAmount (fallbackCalculation toysFromChina) = Num (400 / 9)"
    by (simp add: percentageSplit_def js_sub_def js_gt_def)
  have pct: "snd (percentageSplit (Num 80) (Num 1.2)) = Num (480 / 11)"
    by (simp add: percentageSplit_def js_sub_def)
  from t have inj: "isUsingFlatFee (fallbackCalculation_injected toysFromChina) \<and>
      tariffRate (fallbackCalculation_injected toysFromChina) = Num 0"
    by blast
  from t have injAmount: "tariffAmount (fallbackCalculation_injected toysFromChina) = Num 56 \<and>
      preTariffPrice (fallbackCalculation_injected toysFromChina) = Num 24"
    by simp
  have k1: "includes_str (toLowerCase (countryOfOrigin toysFromHongKong)) ''china'' \<or>
    includes_str (toLowerCase (countryOfOrigin toysFromHongKong)) ''hong kong''"
    using toysFromHongKong_facts(1) by simp
  have k3: "(0::real) \<le> 90" and k4: "(90::real) < 100" by simp_all
  note u = china_postal_selection_by_script
    [OF k1 toysFromHongKong_facts(2) k3 k4 toysFromHongKong_facts(3) toysFromHongKong_facts(4)]
  from u have rate90: "tariffRate (fallbackCalculation toysFromHongKong) = Num 1.2"
    by (simp add: js_gt_def)
  from u have amount90: "tariffAmount (fallbackCalculation toysFromHongKong) = Num (540 / 11)"
    by (simp add: percentageSplit_def js_sub_def js_gt_def)
  from u have inj90: "tariffAmount (fallbackCalculation_injected toysFromHongKong) = Num 63"
    by simp
  from h1 toysFromChina_facts h3 h4 rate amount pct inj injAmount
    k1 toysFromHongKong_facts k3 k4 rate90 amount90 inj90
  show ?thesis by blast
qed

text \<open>
  Claim C10. In \<^verbatim>\<open>content-injection.js\<close>, for a product from China with
  \<open>0 \<le> price < 100\<close> and a category naming neither electronics nor appliances, the amount
  under the 120% rate is \<open>price * (1.2 / 2.2)\<close>, which is not above $100, and the fee of $100
  is above the price: the guard of the percentage branch is false and the guard of the
  approximation branch is true, so the plain subtraction of the fee is not reached either.
  The result is the approximation: \<open>specialPriceLogic\<close>, a tariff of \<open>0.7 * price\<close> and a
  pre-tariff price of \<open>0.3 * price\<close>.
\<close>

theorem injected_china_postal_is_approximation:
  assumes china: "includes_str (toLowerCase (countryOfOrigin pd)) ''china'' \<or>
                  includes_str (toLowerCase (countryOfOrigin pd)) ''hong kong''"
    and price: "price pd = Num p" "0 \<le> p" "p < 100"
    and cat: "\<not> includes_str (lowerCategory (category pd)) ''electronics''"
             "\<not> includes_str (lowerCategory (category pd)) ''appliance''"
  shows "snd (percentageSplit (price pd) (Num 1.2)) = Num (p * (1.2 / 2.2)) \<and>
         \<not> js_gt (snd (percentageSplit (price pd) (Num 1.2))) (Num 100) \<and>
         js_gt (Num 100) (price pd) \<and>
         fallbackCalculation_injected pd =
           \<lparr> isSubjectToTariff = True, tariffRate = Num 0, preTariffPrice = Num (0.3 * p),
             tariffAmount = Num (0.7 * p),
             message =
               [Txt ''This product from China would normally be subject to a $100 flat fee tariff, but since the product price is only $'',
                ToFixed (Num p) 2,
                Txt '', the tariff shown is an approximation. The actual $100 flat fee would be applied at customs for direct imports.''],
             isFallback = True, isUsingFlatFee = True, flatFeeAmount = Num (0.7 * p),
             specialPriceLogic = True \<rparr>"
proof -
  from price cat have postal: "isPostalShipment (Num p) (lowerCategory (category pd))"
    by (simp add: isPostalShipment_def)
  have split: "percentageSplit (Num p) (Num 1.2) = (Num (p / 2.2), Num (p - p / 2.2))"
    by (simp add: percentageSplit_def js_sub_def)
  have amount: "p - p / 2.2 = p * (1.2 / 2.2)" by (simp add: field_simps)
  from price have below: "\<not> 100 < p - p / 2.2" by simp
  have rest: "p - p * 0.7 = 0.3 * p" "p * 0.7 = 0.7 * p" by simp_all
  from china price(1) chinaBranch_postal [OF postal]
  have "fallbackCalculation_injected pd =
      \<lparr> isSubjectToTariff = True, tariffRate = Num 0, preTariffPrice = Num (p - p * 0.7),
       tariffAmount = Num (p * 0.7),
       message =
         [Txt ''This product from China would normally be subject to a $100 flat fee tariff, but since the product price is only $'',
          ToFixed (Num p) 2,
          Txt '', the tariff shown is an approximation. The actual $100 flat fee would be applied at customs for direct imports.''],
       isFallback = True, isUsingFlatFee = True, flatFeeAmount = Num (p * 0.7),
       specialPriceLogic = True \<rparr>"
    by (simp add: fallbackCalculation_injected_def finishPercentage_def Let_def)
  with split amount below price(1,3) rest show ?thesis
    by (simp add: js_gt_def)
qed

theorem injected_china_postal_is_approximation_witness:
  "(includes_str (toLowerCase (countryOfOrigin toysFromChina)) ''china'' \<or>
    includes_str (toLowerCase (countryOfOrigin toysFromChina)) ''hong kong'') \<and>
   price toysFromChina = Num 80 \<and> (0::real) \<le> 80 \<and> (80::real) < 100 \<and>
   \<not> includes_str (lowerCategory (category toysFromChina)) ''electronics'' \<and>
   \<not> includes_str (lowerCategory (category toysFromChina)) ''appliance'' \<and>
   fallbackCalculation_injected toysFromChina =
     \<lparr> isSubjectToTariff = True, tariffRate = Num 0, preTariffPrice = Num 24,
       tariffAmount = Num 56,
       message =
         [Txt ''This product from China would normally be subject to a $100 flat fee tariff, but since the product price is only $'',
          ToFixed (Num 80) 2,
          Txt '', the tariff shown is an approximation. The actual $100 flat fee would be applied at customs for direct imports.''],
       isFallback = True, isUsingFlatFee = True, flatFeeAmount = Num 56,
       specialPriceLogic = True \<rparr>"
proof -
  have h1: "includes_str (toLowerCase (countryOfOrigin toysFromChina)) ''china'' \<or>
    includes_str (toLowerCase (countryOfOrigin toysFromChina)) ''hong kong''"
    using toysFromChina_facts(1) by simp
  have h3: "(0::real) \<le> 80" and h4: "(80::real) < 100" by simp_all
  note t = injected_china_postal_is_approximation
    [OF h1 toysFromChina_facts(2) h3 h4 toysFromChina_facts(3) toysFromChina_facts(4)]
  from t have "fallbackCalculation_injected toysFromChina =
     \<lparr> isSubjectToTariff = True, tariffRate = Num 0, preTariffPrice = Num 24,
       tariffAmount = Num 56,
       message =
         [Txt ''This product from China would normally be subject to a $100 flat fee tariff, but since the product price is only $'',
          ToFixed (Num 80) 2,
          Txt '', the tariff shown is an approximation. The actual $100 flat fee would be applied at customs for direct imports.''],
       isFallback = True, isUsingFlatFee = True, flatFeeAmount = Num 56,
       specialPriceLogic = True \<rparr>"
    by simp
  with h1 toysFromChina_facts h3 h4 show ?thesis by blast
qed

subsection \<open>A scenario of the trade-agreement rules\<close>

text \<open>
  Claim C9. For country "Mexico", category "produce" and price 50 both scripts return the
  exempt policy: rate 0, \<open>isSubjectToTariff\<close> false, a tariff amount of 0 and a pre-tariff
  price equal to the observed price.
\<close>

theorem mexico_produce_exempt:
  "countryOfOrigin produceFromMexico = ''Mexico'' \<and>
   category produceFromMexico = Some ''produce'' \<and>
   price produceFromMexico = Num 50 \<and>
   fallbackCalculation produceFromMexico =
     \<lparr> isSubjectToTariff = False, tariffRate = Num 0, preTariffPrice = Num 50,
       tariffAmount = Num 0,
       message = [Txt ''This product appears to qualify for USMCA exemption (0% tariff)''],
       isFallback = True \<rparr> \<and>
   fallbackCalculation_injected produceFromMexico =
     \<lparr> isSubjectToTariff = False, tariffRate = Num 0, preTariffPrice = Num 50,
       tariffAmount = Num 0,
       message = [Txt ''This product appears to qualify for USMCA exemption (0% tariff)''],
       isFallback = True, isUsingFlatFee = False, flatFeeAmount = Num 0,
       specialPriceLogic = False \<rparr>"
  by code_simp

subsection \<open>A flat fee above the price\<close>

lemma toysFromChina_injected:
  "fallbackCalculation_injected toysFromChina =
     \<lparr> isSubjectToTariff = True, tariffRate = Num 0, preTariffPrice = Num 24,
       tariffAmount = Num 56,
       message =
         [Txt ''This product from China would normally be subject to a $100 flat fee tariff, but since the product price is only $'',
          ToFixed (Num 80) 2,
          Txt '', the tariff shown is an approximation. The actual $100 flat fee would be applied at customs for direct imports.''],
       isFallback = True, isUsingFlatFee = True, flatFeeAmount = Num 56,
       specialPriceLogic = True \<rparr>"
  by code_simp

text \<open>
  Claim C3 says that a selected flat fee at or above the observed price always gives the
  70% approximation and a flag. \<^verbatim>\<open>content.js\<close> does not: for toys from China at 80 it
  selects the $100 fee (its message says so), turns it into the rate 1.25 and returns the
  tariff amount \<open>400 / 9\<close>, not \<open>0.7 * 80\<close>; its result has no field for a flag.
\<close>

theorem flat_fee_above_price_counterexample:
  "price toysFromChina = Num 80 \<and>
   message (fallbackCalculation toysFromChina) =
     [Txt ''This product from China is subject to a $100 flat fee as a postal shipment under the May 2025 trade policy (equivalent to a '',
      ToFixed (Num 125) 1,
      Txt ''% rate)''] \<and>
   tariffAmount (fallbackCalculation toysFromChina) = Num (400 / 9) \<and>
   tariffAmount (fallbackCalculation toysFromChina) \<noteq> Num (0.7 * 80) \<and>
   preTariffPrice (fallbackCalculation toysFromChina) \<noteq> Num (80 - 0.7 * 80)"
  by code_simp

text \<open>
  Claim C3 as amended. In \<^verbatim>\<open>content-injection.js\<close>, whenever the flat fee is the selected
  policy (\<open>isUsingFlatFee\<close>), the price is below the fee of $100, the tariff amount is 70%
  of the price, the pre-tariff price is the remainder and \<open>specialPriceLogic\<close> is set.
  In \<^verbatim>\<open>content.js\<close> a selected flat fee (China, postal channel, 120% of the price at most
  $100, price above 0) becomes the rate \<open>100 / price\<close>, to which the percentage
  decomposition is applied.
\<close>

theorem flat_fee_above_price_by_script:
  assumes "price pd = Num p"
  shows "(isUsingFlatFee (fallbackCalculation_injected pd) \<longrightarrow>
            p < 100 \<and>
            specialPriceLogic (fallbackCalculation_injected pd) \<and>
            tariffAmount (fallbackCalculation_injected pd) = Num (0.7 * p) \<and>
            preTariffPrice (fallbackCalculation_injected pd) = Num (p - 0.7 * p)) \<and>
         ((includes_str (toLowerCase (countryOfOrigin pd)) ''china'' \<or>
           includes_str (toLowerCase (countryOfOrigin pd)) ''hong kong'') \<and>
          isPostalShipment (price pd) (lowerCategory (category pd)) \<and>
          0 < p \<and> p * 1.2 \<le> 100 \<longrightarrow>
            tariffRate (fallbackCalculation pd) = Num (100 / p) \<and>
            preTariffPrice (fallbackCalculation pd) = Num (p / (1 + 100 / p)) \<and>
            tariffAmount (fallbackCalculation pd) = Num (p - p / (1 + 100 / p)))"
proof (intro conjI impI)
  assume flat: "isUsingFlatFee (fallbackCalculation_injected pd)"
  from injected_flat_fee_only_china_postal [OF flat] assms
  have postal: "isPostalShipment (Num p) (lowerCategory (category pd))"
    and eq: "fallbackCalculation_injected pd =
             chinaBranch (Num p) (lowerCategory (category pd)) initialVars"
    by simp_all
  from postal show "p < 100" by (simp add: isPostalShipment_def)
  from eq chinaBranch_postal [OF postal]
  show "specialPriceLogic (fallbackCalculation_injected pd)"
    and "tariffAmount (fallbackCalculation_injected pd) = Num (0.7 * p)"
    and "preTariffPrice (fallbackCalculation_injected pd) = Num (p - 0.7 * p)"
    by simp_all
next
  assume a: "(includes_str (toLowerCase (countryOfOrigin pd)) ''china'' \<or>
           includes_str (toLowerCase (countryOfOrigin pd)) ''hong kong'') \<and>
          isPostalShipment (price pd) (lowerCategory (category pd)) \<and>
          0 < p \<and> p * 1.2 \<le> 100"
  then have pos: "0 < p" and small: "\<not> 100 < p * 1.2" by simp_all
  from pos have nz: "1 + 100 / p \<noteq> 0" by (smt (verit) divide_pos_pos)
  from a assms rateRule_china_postal [of "toLowerCase (countryOfOrigin pd)" p "lowerCategory (category pd)"]
  have "tariffRate (fallbackCalculation pd) = (if 100 < p * 1.2 then Num 1.2 else js_div (Num 100) (Num p))"
    by (simp add: fallbackCalculation_fields(1))
  with pos small show rate: "tariffRate (fallbackCalculation pd) = Num (100 / p)"
    by simp
  from rate assms nz show "preTariffPrice (fallbackCalculation pd) = Num (p / (1 + 100 / p))"
    by (simp add: fallbackCalculation_fields(2) percentageSplit_def Let_def)
  from rate assms nz show "tariffAmount (fallbackCalculation pd) = Num (p - p / (1 + 100 / p))"
    by (simp add: fallbackCalculation_fields(3) percentageSplit_def js_sub_def Let_def)
qed

theorem flat_fee_above_price_by_script_witness:
  "price toysFromChina = Num 80 \<and>
   isUsingFlatFee (fallbackCalculation_injected toysFromChina) \<and>
   (80::real) < 100 \<and>
   specialPriceLogic (fallbackCalculation_injected toysFromChina) \<and>
   tariffAmount (fallbackCalculation_injected toysFromChina) = Num 56 \<and>
   preTariffPrice (fallbackCalculation_injected toysFromChina) = Num 24 \<and>
   (includes_str (toLowerCase (countryOfOrigin toysFromChina)) ''china'' \<or>
    includes_str (toLowerCase (countryOfOrigin toysFromChina)) ''hong kong'') \<and>
   isPostalShipment (price toysFromChina) (lowerCategory (category toysFromChina)) \<and>
   (0::real) < 80 \<and> (80::real) * 1.2 \<le> 100 \<and>
   tariffRate (fallbackCalculation toysFromChina) = Num 1.25 \<and>
   preTariffPrice (fallbackCalculation toysFromChina) = Num (320 / 9) \<and>
   tariffAmount (fallbackCalculation toysFromChina) = Num (400 / 9)"
proof -
  note t = flat_fee_above_price_by_script [OF toysFromChina_facts(2)]
  have flat: "isUsingFlatFee (fallbackCalculation_injected toysFromChina)"
    by (simp add: toysFromChina_injected)
  have china: "includes_str (toLowerCase (countryOfOrigin toysFromChina)) ''china'' \<or>
    includes_str (toLowerCase (countryOfOrigin toysFromChina)) ''hong kong''"
    using toysFromChina_facts(1) by simp
  have postal: "isPostalShipment (price toysFromChina) (lowerCategory (category toysFromChina))"
    using toysFromChina_facts by (simp add: isPostalShipment_def)
  have arith: "(0::real) < 80" "(80::real) * 1.2 \<le> 100" "(80::real) < 100" by simp_all
  from t [THEN conjunct1, rule_format, OF flat]
  have a: "specialPriceLogic (fallbackCalculation_injected toysFromChina) \<and>
      tariffAmount (fallbackCalculation_injected toysFromChina) = Num 56 \<and>
      preTariffPrice (fallbackCalculation_injected toysFromChina) = Num 24"
    by simp
  from t [THEN conjunct2, rule_format, OF conjI [OF china conjI [OF postal conjI [OF arith(1) arith(2)]]]]
  have b: "tariffRate (fallbackCalculation toysFromChina) = Num 1.25 \<and>
      preTariffPrice (fallbackCalculation toysFromChina) = Num (320 / 9) \<and>
      tariffAmount (fallbackCalculation toysFromChina) = Num (400 / 9)"
    by simp
  from toysFromChina_facts(2) flat china postal arith a b show ?thesis by blast
qed

subsection \<open>Unknown origin\<close>

lemma unknown_matches_no_named_country:
  "\<not> includes_str ''unknown'' ''china''"
  "\<not> includes_str ''unknown'' ''hong kong''"
  "namedCountryRule ''unknown'' cat = None"
  by (simp_all add: namedCountryRule_def)

text \<open>
  Claim C4 says that every product of unknown origin gets the 10% baseline. In
  \<^verbatim>\<open>content.js\<close> a product of unknown origin priced below 50 whose category names
  electronics, home, light or tool is taken to be Chinese and gets 125%.
\<close>

theorem unknown_origin_baseline_counterexample:
  "toLowerCase (countryOfOrigin unknownOriginElectronics) = ''unknown'' \<and>
   price unknownOriginElectronics = Num 30 \<and>
   tariffRate (fallbackCalculation unknownOriginElectronics) = Num 1.25 \<and>
   tariffRate (fallbackCalculation unknownOriginElectronics) \<noteq> Num 0.10 \<and>
   message (fallbackCalculation unknownOriginElectronics) =
     [Txt ''Based on the product type and price, this is likely from China and subject to a 125% tariff rate'']"
  by code_simp

text \<open>
  Claim C4 as amended. For a country that lowercases to "unknown",
  \<^verbatim>\<open>content-injection.js\<close> always applies the 10% baseline with a message noting the
  unknown origin; \<^verbatim>\<open>content.js\<close> does so unless the price is below 50 and the category
  names electronics, home, light or tool, and in that case it takes the product to be
  Chinese and applies 125%. The baseline rate is that of the last branch, for countries no
  rule names. In particular "Unknown" at price 30 with no such category gets the baseline.
\<close>

theorem unknown_origin_rule:
  assumes "toLowerCase (countryOfOrigin pd) = ''unknown''"
  shows "tariffRate (fallbackCalculation_injected pd) = Num 0.10 \<and>
         isSubjectToTariff (fallbackCalculation_injected pd) \<and>
         message (fallbackCalculation_injected pd) =
           [Txt ''Country of origin unknown, applying the minimum baseline 10% tariff''] \<and>
         (\<not> (js_lt (price pd) (Num 50) \<and>
             (includes_str (lowerCategory (category pd)) ''electronics'' \<or>
              includes_str (lowerCategory (category pd)) ''home'' \<or>
              includes_str (lowerCategory (category pd)) ''light'' \<or>
              includes_str (lowerCategory (category pd)) ''tool'')) \<longrightarrow>
            tariffRate (fallbackCalculation pd) = Num 0.10 \<and>
            isSubjectToTariff (fallbackCalculation pd) \<and>
            message (fallbackCalculation pd) =
              [Txt ''Country of origin unknown, applying the minimum baseline 10% tariff'']) \<and>
         (js_lt (price pd) (Num 50) \<and>
            (includes_str (lowerCategory (category pd)) ''electronics'' \<or>
             includes_str (lowerCategory (category pd)) ''home'' \<or>
             includes_str (lowerCategory (category pd)) ''light'' \<or>
             includes_str (lowerCategory (category pd)) ''tool'') \<longrightarrow>
            tariffRate (fallbackCalculation pd) = Num 1.25 \<and>
            isSubjectToTariff (fallbackCalculation pd) \<and>
            message (fallbackCalculation pd) =
              [Txt ''Based on the product type and price, this is likely from China and subject to a 125% tariff rate'']) \<and>
         (\<forall>c. fst (baselineRule c) = Num 0.10)"
  using assms unknown_matches_no_named_country
  by (simp add: fallbackCalculation_injected_def fallbackCalculation_def rateRule_def
      finishPercentage_def setRule_def initialVars_def baselineRule_def js_eq_def Let_def
      split: prod.splits)

lemma unknownOrigin_facts:
  "toLowerCase (countryOfOrigin unknownOrigin) = ''unknown''"
  "price unknownOrigin = Num 30"
  "\<not> (js_lt (price unknownOrigin) (Num 50) \<and>
             (includes_str (lowerCategory (category unknownOrigin)) ''electronics'' \<or>
              includes_str (lowerCategory (category unknownOrigin)) ''home'' \<or>
              includes_str (lowerCategory (category unknownOrigin)) ''light'' \<or>
              includes_str (lowerCategory (category unknownOrigin)) ''tool''))"
  by code_simp+

lemma unknownOriginElectronics_facts:
  "toLowerCase (countryOfOrigin unknownOriginElectronics) = ''unknown''"
  "js_lt (price unknownOriginElectronics) (Num 50) \<and>
     (includes_str (lowerCategory (category unknownOriginElectronics)) ''electronics'' \<or>
      includes_str (lowerCategory (category unknownOriginElectronics)) ''home'' \<or>
      includes_str (lowerCategory (category unknownOriginElectronics)) ''light'' \<or>
      includes_str (lowerCategory (category unknownOriginElectronics)) ''tool'')"
  by code_simp+

theorem unknown_origin_rule_witness:
  "toLowerCase (countryOfOrigin unknownOrigin) = ''unknown'' \<and>
   price unknownOrigin = Num 30 \<and>
   tariffRate (fallbackCalculation_injected unknownOrigin) = Num 0.10 \<and>
   isSubjectToTariff (fallbackCalculation_injected unknownOrigin) \<and>
   message (fallbackCalculation_injected unknownOrigin) =
     [Txt ''Country of origin unknown, applying the minimum baseline 10% tariff''] \<and>
   tariffRate (fallbackCalculation unknownOrigin) = Num 0.10 \<and>
   isSubjectToTariff (fallbackCalculation unknownOrigin) \<and>
   message (fallbackCalculation unknownOrigin) =
     [Txt ''Country of origin unknown, applying the minimum baseline 10% tariff''] \<and>
   fst (baselineRule ''peru'') = Num 0.10 \<and>
   toLowerCase (countryOfOrigin unknownOriginElectronics) = ''unknown'' \<and>
   js_lt (price unknownOriginElectronics) (Num 50) \<and>
   includes_str (lowerCategory (category unknownOriginElectronics)) ''electronics'' \<and>
   tariffRate (fallbackCalculation_injected unknownOriginElectronics) = Num 0.10 \<and>
   tariffRate (fallbackCalculation unknownOriginElectronics) = Num 1.25 \<and>
   isSubjectToTariff (fallbackCalculation unknownOriginElectronics) \<and>
   message (fallbackCalculation unknownOriginElectronics) =
     [Txt ''Based on the product type and price, this is likely from China and subject to a 125% tariff rate'']"
proof -
  note t = unknown_origin_rule [OF unknownOrigin_facts(1)]
  from t [THEN conjunct2, THEN conjunct2, THEN conjunct2, THEN conjunct1, rule_format,
          OF unknownOrigin_facts(3)]
  have b: "tariffRate (fallbackCalculation unknownOrigin) = Num 0.10 \<and>
      isSubjectToTariff (fallbackCalculation unknownOrigin) \<and>
      message (fallbackCalculation unknownOrigin) =
        [Txt ''Country of origin unknown, applying the minimum baseline 10% tariff'']" .
  from t have c: "fst (baselineRule ''peru'') = Num 0.10" by blast
  note u = unknown_origin_rule [OF unknownOriginElectronics_facts(1)]
  from u [THEN conjunct2, THEN conjunct2, THEN conjunct2, THEN conjunct2, THEN conjunct1,
          rule_format, OF unknownOriginElectronics_facts(2)]
  have d: "tariffRate (fallbackCalculation unknownOriginElectronics) = Num 1.25 \<and>
      isSubjectToTariff (fallbackCalculation unknownOriginElectronics) \<and>
      message (fallbackCalculation unknownOriginElectronics) =
        [Txt ''Based on the product type and price, this is likely from China and subject to a 125% tariff rate'']" .
  from u have e: "tariffRate (fallbackCalculation_injected unknownOriginElectronics) = Num 0.10"
    by blast
  have f: "js_lt (price unknownOriginElectronics) (Num 50)"
    "includes_str (lowerCategory (category unknownOriginElectronics)) ''electronics''"
    by code_simp+
  from t unknownOrigin_facts(1,2) b c unknownOriginElectronics_facts(1) d e f
  show ?thesis by blast
qed

subsection \<open>The two rate tables\<close>

text \<open>
  Claim C5. The API connector and the content script disagree on a country: for China (same
  price, same category) \<^verbatim>\<open>adjustTariffForCountry\<close> gives 54% whatever the base rate and
  the HTS code, and \<^verbatim>\<open>fallbackCalculation\<close> of \<^verbatim>\<open>content.js\<close> gives 125%. They differ on
  the postal fee as well: for toys from China at 80 the content script applies the $100
  flat fee, as the rate \<open>100 / price\<close>, where the connector, which never reads the price,
  keeps 54%.
\<close>

theorem rate_tables_disagree:
  "normalizeCountryName (JStr (countryOfOrigin electronicsFromChina)) = Inr (JStr ''china'') \<and>
   category electronicsFromChina = Some ''electronics'' \<and>
   price electronicsFromChina = Num 200 \<and>
   adjustTariffForCountry baseRate \<lparr> normalizedCountry = JStr ''china'', htsCode = code \<rparr> =
     \<lparr> rate = Num 0.54,
       rateMessage = [Txt ''This product from China is subject to a combined 54% tariff rate (34% reciprocal + 20% existing tariffs)''] \<rparr> \<and>
   tariffRate (fallbackCalculation electronicsFromChina) = Num 1.25 \<and>
   Num 0.54 \<noteq> Num 1.25 \<and>
   normalizeCountryName (JStr (countryOfOrigin toysFromChina)) = Inr (JStr ''china'') \<and>
   isPostalShipment (price toysFromChina) (lowerCategory (category toysFromChina)) \<and>
   tariffRate (fallbackCalculation toysFromChina) = js_div (Num 100) (price toysFromChina) \<and>
   message (fallbackCalculation toysFromChina) =
     [Txt ''This product from China is subject to a $100 flat fee as a postal shipment under the May 2025 trade policy (equivalent to a '',
      ToFixed (Num 125) 1,
      Txt ''% rate)'']"
proof -
  have a: "adjustTariffForCountry baseRate \<lparr> normalizedCountry = JStr ''china'', htsCode = code \<rparr> =
     \<lparr> rate = Num 0.54,
       rateMessage = [Txt ''This product from China is subject to a combined 54% tariff rate (34% reciprocal + 20% existing tariffs)''] \<rparr>"
    by (simp add: adjustTariffForCountry_def)
  have b: "normalizeCountryName (JStr (countryOfOrigin electronicsFromChina)) = Inr (JStr ''china'')"
    "category electronicsFromChina = Some ''electronics''"
    "price electronicsFromChina = Num 200"
    "tariffRate (fallbackCalculation electronicsFromChina) = Num 1.25"
    "Num 0.54 \<noteq> Num 1.25"
    "normalizeCountryName (JStr (countryOfOrigin toysFromChina)) = Inr (JStr ''china'')"
    "isPostalShipment (price toysFromChina) (lowerCategory (category toysFromChina))"
    "tariffRate (fallbackCalculation toysFromChina) = js_div (Num 100) (price toysFromChina)"
    "message (fallbackCalculation toysFromChina) =
     [Txt ''This product from China is subject to a $100 flat fee as a postal shipment under the May 2025 trade policy (equivalent to a '',
      ToFixed (Num 125) 1,
      Txt ''% rate)'']"
    by code_simp+
  from a b show ?thesis by blast
qed

subsection \<open>Normalizing a country name\<close>

lemma of_char_toLowerChar:
  "(of_char (toLowerChar c) :: nat) =
     (let n = of_char c
      in if (65 \<le> n \<and> n \<le> 90) \<or> (192 \<le> n \<and> n \<le> 222 \<and> n \<noteq> 215) then n + 32 else n)"
  by (simp add: toLowerChar_def Let_def)

lemma toLowerChar_not_upper:
  "\<not> (65 \<le> (of_char (toLowerChar c) :: nat) \<and> (of_char (toLowerChar c) :: nat) \<le> 90)"
  by (simp add: of_char_toLowerChar Let_def)

lemma toLowerChar_idem: "toLowerChar (toLowerChar c) = toLowerChar c"
proof -
  have "(of_char (toLowerChar (toLowerChar c)) :: nat) = of_char (toLowerChar c)"
    by (simp add: of_char_toLowerChar Let_def)
  then show ?thesis by simp
qed

lemma isWhiteSpace_toLowerChar: "isWhiteSpace (toLowerChar c) = isWhiteSpace c"
  by (auto simp: isWhiteSpace_def of_char_toLowerChar Let_def)

lemma toLowerCase_idem: "toLowerCase (toLowerCase s) = toLowerCase s"
  by (simp add: toLowerCase_def toLowerChar_idem)

lemma dropWhile_toLowerCase:
  "dropWhile isWhiteSpace (toLowerCase s) = toLowerCase (dropWhile isWhiteSpace s)"
  by (induction s) (simp_all add: toLowerCase_def isWhiteSpace_toLowerChar)

lemma trim_toLowerCase: "trim (toLowerCase s) = toLowerCase (trim s)"
proof -
  have "rev (toLowerCase s) = toLowerCase (rev s)" for s
    by (simp add: toLowerCase_def rev_map)
  then show ?thesis by (simp add: trim_def dropWhile_toLowerCase)
qed

lemma dropWhile_trim: "dropWhile isWhiteSpace (trim s) = trim s"
proof (cases "trim s")
  case Nil
  then show ?thesis by simp
next
  case (Cons a as)
  let ?y = "dropWhile isWhiteSpace s"
  from Cons have "rev (dropWhile isWhiteSpace (rev ?y)) = a # as" by (simp add: trim_def)
  then have "dropWhile isWhiteSpace (rev ?y) = rev as @ [a]" by (metis rev.simps(2) rev_rev_ident)
  moreover have "\<exists>zs. rev ?y = zs @ dropWhile isWhiteSpace (rev ?y)"
    by (metis takeWhile_dropWhile_id)
  ultimately obtain zs where "rev ?y = zs @ rev as @ [a]" by auto
  then have "?y = a # as @ rev zs" by (metis append.assoc rev.simps(2) rev_append rev_rev_ident rev_swap)
  then have "\<not> isWhiteSpace a" by (metis hd_dropWhile list.sel(1) list.distinct(1))
  with Cons show ?thesis by simp
qed

lemma trim_idem: "trim (trim s) = trim s"
proof -
  have "trim (trim s) = rev (dropWhile isWhiteSpace (rev (trim s)))"
    by (simp add: trim_def [of "trim s"] dropWhile_trim)
  also have "\<dots> = trim s" by (simp add: trim_def)
  finally show ?thesis .
qed

lemma normalized_fixed: "trim (toLowerCase (trim (toLowerCase s))) = trim (toLowerCase s)"
  by (simp add: trim_toLowerCase toLowerCase_idem trim_idem)

lemma set_trim: "set (trim s) \<subseteq> set s"
proof -
  have "set (dropWhile P xs) \<subseteq> set xs" for P and xs :: string
    by (metis set_dropWhileD subsetI)
  then show ?thesis unfolding trim_def by (metis set_rev subset_trans)
qed

lemma normalized_no_capital:
  assumes "c \<in> set (trim (toLowerCase s))"
  shows "\<not> (65 \<le> (of_char c :: nat) \<and> (of_char c :: nat) \<le> 90)"
proof -
  from assms set_trim have "c \<in> set (toLowerCase s)" by blast
  then obtain d where "c = toLowerChar d" by (auto simp: toLowerCase_def)
  then show ?thesis using toLowerChar_not_upper by simp
qed


lemma methods_have_capitals:
  "\<forall>m \<in> set objectPrototypeMethods.
     \<exists>c \<in> set m. 65 \<le> (of_char c :: nat) \<and> (of_char c :: nat) \<le> 90"
  by code_simp

lemma normalized_not_method: "trim (toLowerCase s) \<notin> set objectPrototypeMethods"
  using methods_have_capitals normalized_no_capital by blast

lemma inheritedProperty_normalized:
  assumes "trim (toLowerCase s) \<noteq> ''constructor''" and "trim (toLowerCase s) \<noteq> ''__proto__''"
  shows "inheritedProperty (trim (toLowerCase s)) = JUndefined"
  using assms normalized_not_method by (simp add: inheritedProperty_def)

lemma countryMap_targets:
  "\<forall>v \<in> set (map snd countryMap).
     v \<noteq> [] \<and> trim (toLowerCase v) = v \<and> getProperty countryMap v = JUndefined"
  by code_simp

lemma countryMap_target:
  assumes "map_of countryMap k = Some v"
  shows "v \<noteq> []" and "trim (toLowerCase v) = v" and "getProperty countryMap v = JUndefined"
proof -
  from assms have "(k, v) \<in> set countryMap" by (rule map_of_SomeD)
  then have "v \<in> set (map snd countryMap)" by force
  with countryMap_targets show "v \<noteq> []" and "trim (toLowerCase v) = v"
    and "getProperty countryMap v = JUndefined" by blast+
qed

lemma normalizeCountryName_regular:
  assumes "trim (toLowerCase s) \<noteq> ''constructor''" and "trim (toLowerCase s) \<noteq> ''__proto__''"
  shows "normalizeCountryName (JStr s) =
           Inr (JStr (case map_of countryMap (trim (toLowerCase s)) of
                        Some v \<Rightarrow> v | None \<Rightarrow> trim (toLowerCase s)))"
proof (cases "s = []")
  case True
  have "trim (toLowerCase []) = []" by (simp add: trim_def toLowerCase_def)
  moreover have "map_of countryMap [] = None" by (simp add: countryMap_def)
  ultimately show ?thesis using True by (simp add: normalizeCountryName_def)
next
  case False
  show ?thesis
  proof (cases "map_of countryMap (trim (toLowerCase s))")
    case None
    with False inheritedProperty_normalized [OF assms] show ?thesis
      by (simp add: normalizeCountryName_def getProperty_def Let_def)
  next
    case (Some v)
    with False countryMap_target(1) [OF Some] show ?thesis
      by (simp add: normalizeCountryName_def getProperty_def Let_def)
  qed
qed

lemma normalized_us: "trim (toLowerCase ''  U.S. '') = ''u.s.''"
  by code_simp

text \<open>
  Claim C6 says that the empty input maps to "unknown". The guard at the head of
  \<^verbatim>\<open>normalizeCountryName\<close> returns the empty string for it.
\<close>

theorem normalizeCountryName_empty_counterexample:
  "normalizeCountryName (JStr []) = Inr (JStr []) \<and>
   normalizeCountryName (JStr []) \<noteq> Inr (JStr ''unknown'')"
  by (simp add: normalizeCountryName_def)

text \<open>
  Claim C6 as amended. \<^verbatim>\<open>normalizeCountryName\<close> returns a value for every string and never
  throws; the empty string maps to the empty string; and for every string whose
  lowercased, trimmed form is not \<^verbatim>\<open>constructor\<close> or \<^verbatim>\<open>__proto__\<close> (names the alias object
  inherits) the result is the alias when the table lists that form, and that form itself
  otherwise.
\<close>

theorem normalizeCountryName_total:
  "(\<exists>v. normalizeCountryName (JStr s) = Inr v) \<and>
   normalizeCountryName (JStr []) = Inr (JStr []) \<and>
   (trim (toLowerCase s) \<noteq> ''constructor'' \<and> trim (toLowerCase s) \<noteq> ''__proto__'' \<longrightarrow>
      normalizeCountryName (JStr s) =
        Inr (JStr (case map_of countryMap (trim (toLowerCase s)) of
                     Some v \<Rightarrow> v | None \<Rightarrow> trim (toLowerCase s))))"
proof (intro conjI impI)
  show "\<exists>v. normalizeCountryName (JStr s) = Inr v"
    by (simp add: normalizeCountryName_def Let_def)
  show "normalizeCountryName (JStr []) = Inr (JStr [])"
    by (simp add: normalizeCountryName_def)
next
  assume "trim (toLowerCase s) \<noteq> ''constructor'' \<and> trim (toLowerCase s) \<noteq> ''__proto__''"
  then show "normalizeCountryName (JStr s) =
        Inr (JStr (case map_of countryMap (trim (toLowerCase s)) of
                     Some v \<Rightarrow> v | None \<Rightarrow> trim (toLowerCase s)))"
    using normalizeCountryName_regular by blast
qed

theorem normalizeCountryName_total_witness:
  "trim (toLowerCase ''  U.S. '') \<noteq> ''constructor'' \<and>
   trim (toLowerCase ''  U.S. '') \<noteq> ''__proto__'' \<and>
   normalizeCountryName (JStr ''  U.S. '') = Inr (JStr ''united states'') \<and>
   normalizeCountryName (JStr []) = Inr (JStr [])"
proof -
  have h: "trim (toLowerCase ''  U.S. '') \<noteq> ''constructor'' \<and>
           trim (toLowerCase ''  U.S. '') \<noteq> ''__proto__''"
    by (simp add: normalized_us)
  note t = normalizeCountryName_total [of "''  U.S. ''"]
  have "map_of countryMap ''u.s.'' = Some ''united states''" by code_simp
  with t [THEN conjunct2, THEN conjunct2, rule_format, OF h]
  have a: "normalizeCountryName (JStr ''  U.S. '') = Inr (JStr ''united states'')"
    by (simp add: normalized_us)
  from t have b: "normalizeCountryName (JStr []) = Inr (JStr [])" by blast
  from h a b show ?thesis by blast
qed

lemma normalizeCountryName_idempotent_elsewhere:
  assumes "trim (toLowerCase s) \<noteq> ''constructor''" and "trim (toLowerCase s) \<noteq> ''__proto__''"
    and "normalizeCountryName (JStr s) = Inr v"
  shows "normalizeCountryName v = Inr v"
proof (cases "map_of countryMap (trim (toLowerCase s))")
  case None
  with assms normalizeCountryName_regular [OF assms(1,2)]
  have v: "v = JStr (trim (toLowerCase s))" by simp
  from assms(1,2) have "trim (toLowerCase (trim (toLowerCase s))) \<noteq> ''constructor''"
    and "trim (toLowerCase (trim (toLowerCase s))) \<noteq> ''__proto__''"
    by (simp_all add: normalized_fixed)
  from normalizeCountryName_regular [OF this] None v show ?thesis
    by (simp add: normalized_fixed)
next
  case (Some w)
  with assms normalizeCountryName_regular [OF assms(1,2)]
  have v: "v = JStr w" by simp
  from countryMap_target [OF Some] v show ?thesis
    by (simp add: normalizeCountryName_def Let_def)
qed

text \<open>
  Claim C7 (idempotence) at the input "constructor": the read \<^verbatim>\<open>countryMap[normalized]\<close>
  finds the inherited function \<^verbatim>\<open>Object\<close>, which is truthy and so is returned, and
  normalizing that function throws, as it has no \<^verbatim>\<open>toLowerCase\<close>. The same happens at
  "__proto__". By \<open>normalizeCountryName_idempotent_elsewhere\<close> these two names are the only
  inputs on which a second normalization changes anything.
\<close>

theorem normalizeCountryName_constructor:
  "normalizeCountryName (JStr ''constructor'') = Inr (JFunction ''Object'') \<and>
   normalizeCountryName (JFunction ''Object'') = Inl TypeError \<and>
   normalizeCountryName (JStr ''__proto__'') = Inr JObjectPrototype \<and>
   normalizeCountryName JObjectPrototype = Inl TypeError"
  by code_simp

subsection \<open>Expiry of the cache\<close>

lemma hasCachedTariffData_expired:
  "now - timestamp c > CACHE_DURATION \<Longrightarrow>
     hasCachedTariffData now k c = (False, \<lparr> cacheData = Map.empty, timestamp = now \<rparr>)"
  by (simp add: hasCachedTariffData_def)

lemma hasCachedTariffData_fresh:
  "\<not> now - timestamp c > CACHE_DURATION \<Longrightarrow>
     hasCachedTariffData now k c = (cacheData c k \<noteq> None, c)"
  by (simp add: hasCachedTariffData_def)

lemma lookupEntry_cases:
  "lookupEntry now k c = (if now - timestamp c > CACHE_DURATION then None else cacheData c k)"
  by (cases "cacheData c k") (simp_all add: lookupEntry_def hasCachedTariffData_def)

lemma cacheStep_origin:
  assumes "cacheData (cacheStep c op) k = Some td"
  shows "cacheData c k = Some td \<or> (\<exists>t. op = (t, Store k td))"
proof -
  obtain t a where op: "op = (t, a)" by (cases op)
  show ?thesis
  proof (cases a)
    case (Lookup k')
    with op assms show ?thesis
      by (simp add: hasCachedTariffData_def split: if_splits)
  next
    case (Store k' td')
    with op assms show ?thesis
      by (simp add: cacheTariffData_def split: if_splits)
  qed
qed

lemma runCache_origin:
  "cacheData (runCache ops c) k = Some td \<Longrightarrow>
     cacheData c k = Some td \<or> (\<exists>t. (t, Store k td) \<in> set ops)"
proof (induction ops arbitrary: c)
  case Nil
  then show ?case by (simp add: runCache_def)
next
  case (Cons op ops)
  from Cons.prems have "cacheData (runCache ops (cacheStep c op)) k = Some td"
    by (simp add: runCache_def)
  from Cons.IH [OF this] cacheStep_origin [of c op k td] show ?case by auto
qed

text \<open>
  Claim C8 says that a lookup made more than 24 hours after the last reset clears the
  store, so that no stale entry is returned. The timestamp the lookup reads is also
  written by every store. In the session \<open>refreshedSession\<close> the cache is reset at
  \<open>sessionStart\<close>, an entry is stored 300 ms later and another key 23 hours after the
  start; a lookup 25 hours after the start, more than 24 hours after the reset and after
  the first store, leaves the store as it is and returns the first entry.
\<close>

theorem stale_entry_counterexample:
  "runCache [(sessionStart, Lookup ''china-95'')] initialCache =
     \<lparr> cacheData = Map.empty, timestamp = sessionStart \<rparr> \<and>
   (sessionStart + 25 * hour) - sessionStart > CACHE_DURATION \<and>
   (sessionStart + 25 * hour) - (sessionStart + 300) > CACHE_DURATION \<and>
   hasCachedTariffData (sessionStart + 25 * hour) ''china-95'' (runCache refreshedSession initialCache) =
     (True, runCache refreshedSession initialCache) \<and>
   lookupEntry (sessionStart + 25 * hour) ''china-95'' (runCache refreshedSession initialCache) =
     Some sampleEntry"
  by (simp add: runCache_def refreshedSession_def initialCache_def hasCachedTariffData_def
      cacheTariffData_def lookupEntry_def CACHE_DURATION_def hour_def sessionStart_def)

text \<open>
  Claim C8 as amended. A lookup compares the clock with the timestamp of the cache, which
  is the time of the last reset or of the last store, whichever came later. If more than
  24 hours have passed since then, the whole store is emptied and the timestamp set to the
  clock before the key is read, so the lookup finds nothing, and whatever a later lookup
  returns was stored after that reset. Otherwise the lookup changes nothing and returns
  what the store holds for the key. A lookup thus leaves the store whole or empties it:
  no key is evicted on its own.
\<close>

theorem cache_expiry_is_full_reset:
  "(now - timestamp c > CACHE_DURATION \<longrightarrow>
      hasCachedTariffData now k c = (False, \<lparr> cacheData = Map.empty, timestamp = now \<rparr>) \<and>
      lookupEntry now k c = None \<and>
      (\<forall>ops now' k' td.
         lookupEntry now' k' (runCache ops (snd (hasCachedTariffData now k c))) = Some td \<longrightarrow>
         (\<exists>t. (t, Store k' td) \<in> set ops))) \<and>
   (\<not> now - timestamp c > CACHE_DURATION \<longrightarrow>
      hasCachedTariffData now k c = (cacheData c k \<noteq> None, c) \<and>
      lookupEntry now k c = cacheData c k) \<and>
   timestamp (cacheTariffData now k entry c) = now \<and>
   cacheData (cacheTariffData now k entry c) = (cacheData c)(k \<mapsto> entry)"
proof (intro conjI impI allI)
  assume expired: "now - timestamp c > CACHE_DURATION"
  then show "hasCachedTariffData now k c = (False, \<lparr> cacheData = Map.empty, timestamp = now \<rparr>)"
    by (rule hasCachedTariffData_expired)
  from expired show "lookupEntry now k c = None" by (simp add: lookupEntry_cases)
  fix ops now' k' td
  assume "lookupEntry now' k' (runCache ops (snd (hasCachedTariffData now k c))) = Some td"
  then have "cacheData (runCache ops (snd (hasCachedTariffData now k c))) k' = Some td"
    by (simp add: lookupEntry_cases split: if_splits)
  from runCache_origin [OF this] expired show "\<exists>t. (t, Store k' td) \<in> set ops"
    by (simp add: hasCachedTariffData_expired)
next
  assume fresh: "\<not> now - timestamp c > CACHE_DURATION"
  then show "hasCachedTariffData now k c = (cacheData c k \<noteq> None, c)"
    by (rule hasCachedTariffData_fresh)
  from fresh show "lookupEntry now k c = cacheData c k" by (simp add: lookupEntry_cases)
next
  show "timestamp (cacheTariffData now k entry c) = now"
    and "cacheData (cacheTariffData now k entry c) = (cacheData c)(k \<mapsto> entry)"
    by (simp_all add: cacheTariffData_def)
qed

theorem cache_expiry_is_full_reset_witness:
  "sessionStart - timestamp initialCache > CACHE_DURATION \<and>
   hasCachedTariffData sessionStart ''china-95'' initialCache =
     (False, \<lparr> cacheData = Map.empty, timestamp = sessionStart \<rparr>) \<and>
   lookupEntry (sessionStart + 2) ''china-95''
     (runCache [(sessionStart + 1, Store ''china-95'' sampleEntry)]
        (snd (hasCachedTariffData sessionStart ''china-95'' initialCache))) = Some sampleEntry \<and>
   (\<exists>t. (t, Store ''china-95'' sampleEntry) \<in> set [(sessionStart + 1, Store ''china-95'' sampleEntry)]) \<and>
   \<not> (sessionStart + 2) -
        timestamp (cacheTariffData (sessionStart + 1) ''china-95'' sampleEntry initialCache)
      > CACHE_DURATION \<and>
   lookupEntry (sessionStart + 2) ''china-95''
     (cacheTariffData (sessionStart + 1) ''china-95'' sampleEntry initialCache) = Some sampleEntry"
proof -
  let ?put = "cacheTariffData (sessionStart + 1) ''china-95'' sampleEntry initialCache"
  have expired: "sessionStart - timestamp initialCache > CACHE_DURATION"
    by (simp add: initialCache_def sessionStart_def CACHE_DURATION_def)
  note t = cache_expiry_is_full_reset [of sessionStart initialCache "''china-95''",
      THEN conjunct1, rule_format, OF expired]
  from t have reset: "hasCachedTariffData sessionStart ''china-95'' initialCache =
     (False, \<lparr> cacheData = Map.empty, timestamp = sessionStart \<rparr>)"
    by blast
  have found: "lookupEntry (sessionStart + 2) ''china-95''
     (runCache [(sessionStart + 1, Store ''china-95'' sampleEntry)]
        (snd (hasCachedTariffData sessionStart ''china-95'' initialCache))) = Some sampleEntry"
    by (simp add: reset runCache_def cacheTariffData_def lookupEntry_def
        hasCachedTariffData_def CACHE_DURATION_def)
  from t [THEN conjunct2, THEN conjunct2, rule_format, OF found]
  have origin: "\<exists>t. (t, Store ''china-95'' sampleEntry) \<in>
      set [(sessionStart + 1, Store ''china-95'' sampleEntry)]" .
  have fresh: "\<not> (sessionStart + 2) - timestamp ?put > CACHE_DURATION"
    by (simp add: cacheTariffData_def CACHE_DURATION_def)
  from cache_expiry_is_full_reset [of "sessionStart + 2" ?put "''china-95''",
      THEN conjunct2, THEN conjunct1, rule_format, OF fresh]
  have hit: "lookupEntry (sessionStart + 2) ''china-95'' ?put = Some sampleEntry"
    by (simp add: cacheTariffData_def)
  from expired reset found origin fresh hit show ?thesis by blast
qed

end
